theory Spec2Isabelle
  imports Complex_Main
begin

section \<open>Preliminaries\<close>

text \<open>
  The development embeds the geometry locator (\<^verbatim>\<open>src/geometry.cpp\<close>) and the material
  cross-section engine (\<^verbatim>\<open>src/material.cpp\<close>) of the transport code.  C++ member names
  end in an underscore, which is not a legal end of a HOL name, so a member \<^verbatim>\<open>foo_\<close> is
  written \<open>foo\<close> here (prefixed by its class where two classes share the name).
  The \<^verbatim>\<open>int\<close> and \<^verbatim>\<open>int32_t\<close> values of the source are indices, identifiers and
  small counts; they are modelled by unbounded integers, and nothing that is proved
  depends on wrap-around.
\<close>

subsection \<open>Double-precision values\<close>

text \<open>
  A C++ \<^verbatim>\<open>double\<close> is a finite number, one of the two infinities, or NaN.  The special
  values follow IEEE 754: NaN is unordered and unequal to everything including itself,
  \<^verbatim>\<open>0/0\<close> and \<^verbatim>\<open>inf - inf\<close> are NaN.  A finite value is written \<open>Fin r\<close> with the real
  number \<open>r\<close> it denotes.  An operation on finite values computes the exact real result
  and rounds it to binary64 with \<open>round64\<close>: to the nearest representable number, ties
  to the even significand, with gradual underflow and with overflow to infinity.  Every
  operation rounds once, as the SSE2 code of an x86-64 compiler does (no extended
  precision, no fused multiply-add).  The sign of zero is left out of the model (a
  division of a non-zero number by zero takes the sign of the numerator).
\<close>

datatype double = Fin real | PInf | NInf | NaN

text \<open>The number of binary digits of a natural number.\<close>

fun bit_length :: "nat \<Rightarrow> nat" where
  "bit_length n = (if n = 0 then 0 else Suc (bit_length (n div 2)))"

declare bit_length.simps [simp del]

definition pow2 :: "int \<Rightarrow> real" where
  "pow2 k = (if 0 \<le> k then 2 ^ nat k else 1 / 2 ^ nat (- k))"

text \<open>
  The binary exponent of a positive real \<open>a\<close>: the integer \<open>e\<close> with
  \<open>pow2 e \<le> a\<close> and \<open>a < pow2 (e + 1)\<close>, read off the integer part of \<open>a\<close> when
  \<open>1 \<le> a\<close> and off that of \<open>1 / a\<close> otherwise.
\<close>

definition exponent :: "real \<Rightarrow> int" where
  "exponent a = (if 1 \<le> a then int (bit_length (nat \<lfloor>a\<rfloor>)) - 1
                 else - int (bit_length (nat (\<lceil>1 / a\<rceil> - 1))))"

text \<open>Rounding to the nearest integer, a tie to the even one.\<close>

definition round_even :: "real \<Rightarrow> int" where
  "round_even q = (if q - of_int \<lfloor>q\<rfloor> < 1 / 2 then \<lfloor>q\<rfloor>
                   else if 1 / 2 < q - of_int \<lfloor>q\<rfloor> then \<lfloor>q\<rfloor> + 1
                   else if even \<lfloor>q\<rfloor> then \<lfloor>q\<rfloor> else \<lfloor>q\<rfloor> + 1)"

text \<open>
  Binary64 has 53 significant bits and exponents from \<open>-1022\<close> to \<open>1023\<close>.  A real of
  exponent \<open>e\<close> is rounded to a multiple of \<open>pow2 k\<close> with \<open>k = max e (- 1022) - 52\<close>; a
  result of \<open>pow2 1024\<close> or more in magnitude is an infinity.
\<close>

definition round64 :: "real \<Rightarrow> double" where
  "round64 x =
     (if x = 0 then Fin 0
      else (let e = exponent \<bar>x\<bar>;
                k = max e (- 1022) - 52;
                n = round_even (\<bar>x\<bar> / pow2 k)
            in if 1023 < e \<or> (e = 1023 \<and> n = 2 ^ 53) then (if 0 < x then PInf else NInf)
               else Fin (sgn x * of_int n * pow2 k)))"


text \<open>
  The comparisons of C++: every comparison with NaN is false, apart from \<^verbatim>\<open>!=\<close>, which
  is true.
\<close>

fun dlt :: "double \<Rightarrow> double \<Rightarrow> bool" where
  "dlt (Fin x) (Fin y) = (x < y)"
| "dlt (Fin x) PInf = True"
| "dlt (Fin x) NInf = False"
| "dlt (Fin x) NaN = False"
| "dlt PInf b = False"
| "dlt NInf (Fin y) = True"
| "dlt NInf PInf = True"
| "dlt NInf NInf = False"
| "dlt NInf NaN = False"
| "dlt NaN b = False"

text \<open>\<^verbatim>\<open>a > b\<close> is \<^verbatim>\<open>b < a\<close>; \<^verbatim>\<open>a >= b\<close> holds when \<^verbatim>\<open>b < a\<close> or the two are equal and not NaN.\<close>

definition dgt :: "double \<Rightarrow> double \<Rightarrow> bool" where
  "dgt a b = dlt b a"

definition deq :: "double \<Rightarrow> double \<Rightarrow> bool" where
  "deq a b = (a \<noteq> NaN \<and> b \<noteq> NaN \<and> a = b)"

definition dne :: "double \<Rightarrow> double \<Rightarrow> bool" where
  "dne a b = (\<not> deq a b)"

definition dge :: "double \<Rightarrow> double \<Rightarrow> bool" where
  "dge a b = (dlt b a \<or> deq a b)"

fun dneg :: "double \<Rightarrow> double" where
  "dneg (Fin x) = Fin (- x)"
| "dneg PInf = NInf"
| "dneg NInf = PInf"
| "dneg NaN = NaN"

fun dadd :: "double \<Rightarrow> double \<Rightarrow> double" where
  "dadd (Fin x) (Fin y) = round64 (x + y)"
| "dadd (Fin x) PInf = PInf"
| "dadd (Fin x) NInf = NInf"
| "dadd (Fin x) NaN = NaN"
| "dadd PInf (Fin y) = PInf"
| "dadd PInf PInf = PInf"
| "dadd PInf NInf = NaN"
| "dadd PInf NaN = NaN"
| "dadd NInf (Fin y) = NInf"
| "dadd NInf PInf = NaN"
| "dadd NInf NInf = NInf"
| "dadd NInf NaN = NaN"
| "dadd NaN b = NaN"

definition dsub :: "double \<Rightarrow> double \<Rightarrow> double" where
  "dsub a b = dadd a (dneg b)"

text \<open>The sign of an infinite operand times a finite one; zero times infinity is NaN.\<close>

definition inf_times :: "bool \<Rightarrow> real \<Rightarrow> double" where
  "inf_times positive y =
     (if y = 0 then NaN else if (0 < y) = positive then PInf else NInf)"

fun dmul :: "double \<Rightarrow> double \<Rightarrow> double" where
  "dmul (Fin x) (Fin y) = round64 (x * y)"
| "dmul (Fin x) PInf = inf_times True x"
| "dmul (Fin x) NInf = inf_times False x"
| "dmul (Fin x) NaN = NaN"
| "dmul PInf (Fin y) = inf_times True y"
| "dmul PInf PInf = PInf"
| "dmul PInf NInf = NInf"
| "dmul PInf NaN = NaN"
| "dmul NInf (Fin y) = inf_times False y"
| "dmul NInf PInf = NInf"
| "dmul NInf NInf = PInf"
| "dmul NInf NaN = NaN"
| "dmul NaN b = NaN"

fun ddiv :: "double \<Rightarrow> double \<Rightarrow> double" where
  "ddiv (Fin x) (Fin y) =
     (if y = 0 then (if x = 0 then NaN else if 0 < x then PInf else NInf)
      else round64 (x / y))"
| "ddiv (Fin x) PInf = Fin 0"
| "ddiv (Fin x) NInf = Fin 0"
| "ddiv (Fin x) NaN = NaN"
| "ddiv PInf (Fin y) = (if 0 \<le> y then PInf else NInf)"
| "ddiv PInf PInf = NaN"
| "ddiv PInf NInf = NaN"
| "ddiv PInf NaN = NaN"
| "ddiv NInf (Fin y) = (if 0 \<le> y then NInf else PInf)"
| "ddiv NInf PInf = NaN"
| "ddiv NInf NInf = NaN"
| "ddiv NInf NaN = NaN"
| "ddiv NaN b = NaN"


subsection \<open>Errors, checked indexing and counted loops\<close>

text \<open>
  An index outside a \<^verbatim>\<open>std::vector\<close>, an \<^verbatim>\<open>xtensor\<close> or a fixed array is undefined
  behaviour in the source; the model makes it the error value \<open>OutOfBounds\<close>.
  \<open>Fatal\<close> stands for a call of \<^verbatim>\<open>fatal_error\<close>, which ends the process.
\<close>

datatype error = OutOfBounds | Fatal

definition vec_at :: "'a list \<Rightarrow> int \<Rightarrow> error + 'a" where
  "vec_at xs i = (if 0 \<le> i \<and> i < int (length xs) then Inr (xs ! nat i) else Inl OutOfBounds)"

definition vec_set :: "'a list \<Rightarrow> int \<Rightarrow> 'a \<Rightarrow> error + 'a list" where
  "vec_set xs i v =
     (if 0 \<le> i \<and> i < int (length xs) then Inr (xs[nat i := v]) else Inl OutOfBounds)"

text \<open>
  \<^verbatim>\<open>for (int i = 0; i < n; ++i) body\<close> with a bound that the body does not change:
  the iterations run in the order \<open>0, 1, ..., n - 1\<close> and stop at the first error.
\<close>

primrec for_loop :: "nat \<Rightarrow> (nat \<Rightarrow> 's \<Rightarrow> error + 's) \<Rightarrow> 's \<Rightarrow> error + 's" where
  "for_loop 0 body s = Inr s"
| "for_loop (Suc n) body s =
     (case for_loop n body s of Inl e \<Rightarrow> Inl e | Inr s' \<Rightarrow> body n s')"

text \<open>The constant \<^verbatim>\<open>C_NONE\<close>: the header \<^verbatim>\<open>material.h\<close> documents the value \<open>-1\<close>.\<close>

definition C_NONE :: int where
  "C_NONE = - 1"

section \<open>Materials\<close>

record ThermalTable =
  index_table :: int
  index_nuclide :: int
  fraction :: double

record Material =
  mat_id :: int
  nuclide :: "int list"
  element :: "int list"
  atom_density :: "double list"
  density :: double
  density_gpcc :: double
  mat_nuclide_index :: "int list"
  thermal_tables :: "ThermalTable list"

text \<open>The members of \<^verbatim>\<open>Nuclide\<close> that the material code reads.\<close>

record Nuclide =
  nuc_name :: string
  awr :: double

subsection \<open>\<^verbatim>\<open>Material::init_nuclide_index\<close>\<close>

text \<open>
  \<open>n\<close> is the size of the global nuclide table (\<^verbatim>\<open>data::nuclides.size()\<close>, or the
  multigroup table's).  The table is resized to \<open>n\<close>, filled with \<^verbatim>\<open>C_NONE\<close>, and then
  written once per local slot in ascending slot order.
\<close>

definition init_index_body :: "int list \<Rightarrow> nat \<Rightarrow> int list \<Rightarrow> error + int list" where
  "init_index_body nucs i idx = vec_set idx (nucs ! i) (int i)"

definition init_nuclide_index :: "nat \<Rightarrow> Material \<Rightarrow> error + Material" where
  "init_nuclide_index n m =
     (case for_loop (length (nuclide m)) (init_index_body (nuclide m)) (replicate n C_NONE) of
        Inl e \<Rightarrow> Inl e
      | Inr idx \<Rightarrow> Inr (m\<lparr>mat_nuclide_index := idx\<rparr>))"

subsection \<open>Constants and collaborators that are not part of the sources\<close>

text \<open>
  The numeric constants of \<^verbatim>\<open>constants.h\<close> are parameters of the model; nothing is
  assumed about their values except where a theorem says so.
\<close>

record constants =
  MASS_NEUTRON :: double
  N_AVOGADRO :: double
  FP_REL_PRECISION :: double
  TINY_BIT :: double
  MATERIAL_VOID :: int
  F90_NONE :: int
  NO_OUTER_UNIVERSE :: int

text \<open>
  Modelled from the spec: the return codes of the boundary API (\<^verbatim>\<open>capi.h\<close> is not part
  of the sources).  The spec lists OK, INVALID_ID, OUT_OF_BOUNDS, ALLOCATE,
  INVALID_ARGUMENT and UNASSIGNED; \<open>OK\<close> is the return value \<^verbatim>\<open>0\<close>, and \<open>LoadError\<close>
  carries a non-zero code handed through from \<^verbatim>\<open>openmc_load_nuclide\<close>.
\<close>

datatype status = OK | INVALID_ID | OUT_OF_BOUNDS | ALLOCATE | INVALID_ARGUMENT
  | UNASSIGNED | LoadError int

subsection \<open>\<^verbatim>\<open>Material::set_density\<close>\<close>



subsection \<open>The boundary API\<close>

text \<open>
  The global registries: \<^verbatim>\<open>model::materials\<close>, \<^verbatim>\<open>model::material_map\<close> and
  \<^verbatim>\<open>data::nuclides\<close>.  The thread-local error message set by \<^verbatim>\<open>set_errmsg\<close> is not
  modelled.
\<close>

record Registry =
  materials :: "Material list"
  material_map :: "int \<rightharpoonup> int"
  nuclides :: "Nuclide list"

definition index_ok :: "Registry \<Rightarrow> int \<Rightarrow> bool" where
  "index_ok s index = (1 \<le> index \<and> index \<le> int (length (materials s)))"

definition openmc_get_material_index :: "Registry \<Rightarrow> int \<Rightarrow> status \<times> int option" where
  "openmc_get_material_index s ident =
     (case material_map s ident of
        None \<Rightarrow> (INVALID_ID, None)
      | Some i \<Rightarrow> (OK, Some (i + 1)))"

definition openmc_material_set_id :: "int \<Rightarrow> int \<Rightarrow> Registry \<Rightarrow> status \<times> Registry" where
  "openmc_material_set_id index ident s =
     (if index_ok s index then
        (OK, s\<lparr>materials := (materials s)[nat (index - 1) :=
                                (materials s ! nat (index - 1))\<lparr>mat_id := ident\<rparr>],
                material_map := (material_map s)(ident \<mapsto> index - 1)\<rparr>)
      else (OUT_OF_BOUNDS, s))"

text \<open>
  The update of an existing slot in \<^verbatim>\<open>openmc_material_add_nuclide\<close>: the body of the
  \<^verbatim>\<open>if\<close> inside the search loop.
\<close>

definition update_slot :: "constants \<Rightarrow> Nuclide \<Rightarrow> nat \<Rightarrow> double \<Rightarrow> Material \<Rightarrow> error + Material" where
  "update_slot K nuc i dens m =
     (case vec_at (atom_density m) (int i) of
        Inl e \<Rightarrow> Inl e
      | Inr a \<Rightarrow>
          Inr (m\<lparr>density := dadd (density m) (dsub dens a),
                 density_gpcc := dadd (density_gpcc m)
                   (ddiv (dmul (dmul (dsub dens a) (awr nuc)) (MASS_NEUTRON K)) (N_AVOGADRO K)),
                 atom_density := (atom_density m)[i := dens]\<rparr>))"

text \<open>
  The search loop over the local slots, given as the list of slots still to visit; it
  returns at the first slot whose nuclide carries the name.
\<close>

fun scan_slots ::
  "constants \<Rightarrow> Nuclide list \<Rightarrow> string \<Rightarrow> double \<Rightarrow> Material \<Rightarrow> nat list \<Rightarrow> error + Material option" where
  "scan_slots K nucs name dens m [] = Inr None"
| "scan_slots K nucs name dens m (i # slots) =
     (case vec_at nucs (nuclide m ! i) of
        Inl e \<Rightarrow> Inl e
      | Inr nuc \<Rightarrow>
          if nuc_name nuc = name then
            (case update_slot K nuc i dens m of Inl e \<Rightarrow> Inl e | Inr m' \<Rightarrow> Inr (Some m'))
          else scan_slots K nucs name dens m slots)"

text \<open>
  When the name is not found the source loads the nuclide (\<^verbatim>\<open>openmc_load_nuclide\<close>, a
  collaborator passed in as \<open>load\<close>) and, on success, appends a slot: it allocates a
  density array of the new size \<open>n\<close> and then writes entry \<open>n\<close> of it, one past the end.
\<close>

definition openmc_material_add_nuclide ::
  "constants \<Rightarrow> (string \<Rightarrow> Registry \<Rightarrow> int \<times> Registry) \<Rightarrow> int \<Rightarrow> string \<Rightarrow> double \<Rightarrow> Registry
     \<Rightarrow> error + status \<times> Registry" where
  "openmc_material_add_nuclide K load index name dens s =
     (if index_ok s index then
        (let m = materials s ! nat (index - 1) in
         case scan_slots K (nuclides s) name dens m [0..<length (nuclide m)] of
           Inl e \<Rightarrow> Inl e
         | Inr (Some m') \<Rightarrow> Inr (OK, s\<lparr>materials := (materials s)[nat (index - 1) := m']\<rparr>)
         | Inr None \<Rightarrow>
             (case load name s of
                (err, s') \<Rightarrow> if err = 0 then Inl OutOfBounds else Inr (LoadError err, s')))
      else Inr (OUT_OF_BOUNDS, s))"

section \<open>Cross sections\<close>

text \<open>The per-nuclide cache entry of \<^verbatim>\<open>nuclide.h\<close>.\<close>

record NuclideMicroXS =
  total :: double
  absorption :: double
  fission :: double
  nu_fission :: double
  elastic :: double
  thermal :: double
  thermal_elastic :: double
  photon_prod :: double
  reaction :: "double list"
  index_grid :: int
  index_temp :: int
  interp_factor :: double
  index_sab :: int
  index_temp_sab :: int
  sab_frac :: double
  use_ptable :: bool
  last_E :: double
  last_sqrtkT :: double

text \<open>
  The per-element photon cache entry: \<^verbatim>\<open>photon.h\<close> is not part of the sources, the
  members are those that \<^verbatim>\<open>calculate_photon_xs\<close> reads.
\<close>

record ElementMicroXS =
  total :: double
  coherent :: double
  incoherent :: double
  photoelectric :: double
  pair_production :: double
  last_E :: double

record MaterialMacroXS =
  total :: double
  absorption :: double
  fission :: double
  nu_fission :: double
  photon_prod :: double
  coherent :: double
  incoherent :: double
  photoelectric :: double
  pair_production :: double

text \<open>
  Modelled from the spec: the particle types (\<^verbatim>\<open>particle.h\<close> is not part of the sources);
  \<^verbatim>\<open>calculate_xs\<close> tests for the neutron and the photon only.
\<close>

datatype ParticleType = neutron | photon | electron | positron

text \<open>A call of a data-library collaborator, recorded in the order in which it is made.\<close>

datatype xs_call =
  NuclideCall int int double int double double
| ElementCall int double

text \<open>
  Modelled from the spec: \<^verbatim>\<open>Nuclide::calculate_xs\<close>, the photon
  \<^verbatim>\<open>calculate_xs\<close> of an element, the threshold of a thermal scattering table and the
  logarithm behind the energy-grid index are not part of the sources.  By section 6 of
  the spec a refresh rewrites the thread-local cache; which entries it writes and what it
  stores is left open.
\<close>

record Library =
  nuclide_calculate_xs ::
    "int \<Rightarrow> int \<Rightarrow> double \<Rightarrow> int \<Rightarrow> double \<Rightarrow> double \<Rightarrow> (int \<Rightarrow> NuclideMicroXS) \<Rightarrow> (int \<Rightarrow> NuclideMicroXS)"
  element_calculate_xs ::
    "int \<Rightarrow> double \<Rightarrow> (int \<Rightarrow> ElementMicroXS) \<Rightarrow> (int \<Rightarrow> ElementMicroXS)"
  threshold :: "int \<Rightarrow> double"
  log_grid_index :: "double \<Rightarrow> int"

text \<open>The thread-local caches and the accumulator, with the log of collaborator calls.\<close>

record Simulation =
  micro_xs :: "int \<Rightarrow> NuclideMicroXS"
  micro_photon_xs :: "int \<Rightarrow> ElementMicroXS"
  material_xs :: MaterialMacroXS
  xs_calls :: "xs_call list"

text \<open>
  A coordinate frame and the particle.  \<^verbatim>\<open>particle.h\<close> is not part of the sources; the
  members are those that the locator and the cross-section code read or write.  The
  array \<^verbatim>\<open>coord\<close> has the fixed length \<^verbatim>\<open>MAX_COORD\<close>, which is the length of the list
  \<open>coord\<close>.
\<close>

type_synonym vec3 = "double \<times> double \<times> double"

type_synonym ijk = "int \<times> int \<times> int"

record LocalCoord =
  universe :: int
  cell :: int
  xyz :: vec3
  uvw :: vec3
  lattice :: int
  lattice_x :: int
  lattice_y :: int
  lattice_z :: int
  rotated :: bool

record Particle =
  p_id :: int
  ptype :: ParticleType
  E :: double
  sqrtkT :: double
  last_sqrtkT :: double
  n_coord :: int
  coord :: "LocalCoord list"
  surface :: int
  material :: int
  last_material :: int
  cell_instance :: int
  alive :: bool

subsection \<open>\<^verbatim>\<open>Material::calculate_neutron_xs\<close>\<close>

text \<open>
  The S(a,b) part of one iteration.  The loop carries the cursor \<open>j\<close> into
  \<^verbatim>\<open>thermal_tables_\<close> and the flag \<^verbatim>\<open>check_sab\<close>; the result is the pair
  \<open>(i_sab, sab_frac)\<close> bound for slot \<open>i\<close> with the new cursor and flag.
\<close>

definition sab_lookup ::
  "Library \<Rightarrow> Material \<Rightarrow> Particle \<Rightarrow> nat \<Rightarrow> nat \<Rightarrow> bool \<Rightarrow> error + (int \<times> double) \<times> nat \<times> bool" where
  "sab_lookup L m p i j check_sab =
     (if check_sab then
        (case vec_at (thermal_tables m) (int j) of
           Inl e \<Rightarrow> Inl e
         | Inr sab \<Rightarrow>
             if int i = index_nuclide sab then
               (let i_sab = (if dgt (E p) (threshold L (index_table sab)) then C_NONE
                             else index_table sab)
                in Inr ((i_sab, fraction sab), j + 1, j + 1 \<noteq> length (thermal_tables m)))
             else Inr ((C_NONE, Fin 0), j, True))
      else Inr ((C_NONE, Fin 0), j, False))"

text \<open>The test that guards the refresh of a cache entry.\<close>

definition cache_differs :: "Particle \<Rightarrow> int \<Rightarrow> double \<Rightarrow> NuclideMicroXS \<Rightarrow> bool" where
  "cache_differs p i_sab sf micro =
     (dne (E p) (NuclideMicroXS.last_E micro)
      \<or> dne (sqrtkT p) (NuclideMicroXS.last_sqrtkT micro)
      \<or> i_sab \<noteq> index_sab micro
      \<or> dne sf (sab_frac micro))"

definition refresh_nuclide ::
  "Library \<Rightarrow> Particle \<Rightarrow> int \<Rightarrow> int \<Rightarrow> int \<Rightarrow> double \<Rightarrow> Simulation \<Rightarrow> Simulation" where
  "refresh_nuclide L p i_grid i_nuclide i_sab sf sim =
     (if cache_differs p i_sab sf (micro_xs sim i_nuclide) then
        sim\<lparr>micro_xs := nuclide_calculate_xs L i_nuclide i_sab (E p) i_grid (sqrtkT p) sf
                           (micro_xs sim),
            xs_calls := xs_calls sim @ [NuclideCall i_nuclide i_sab (E p) i_grid (sqrtkT p) sf]\<rparr>
      else sim)"

definition add_neutron :: "double \<Rightarrow> NuclideMicroXS \<Rightarrow> MaterialMacroXS \<Rightarrow> MaterialMacroXS" where
  "add_neutron a micro x =
     x\<lparr>total := dadd (total x) (dmul a (NuclideMicroXS.total micro)),
       absorption := dadd (absorption x) (dmul a (NuclideMicroXS.absorption micro)),
       fission := dadd (fission x) (dmul a (NuclideMicroXS.fission micro)),
       nu_fission := dadd (nu_fission x) (dmul a (NuclideMicroXS.nu_fission micro))\<rparr>"

text \<open>
  One iteration for the local slot \<open>i\<close>.  \<^verbatim>\<open>micro\<close> is a reference into the cache, so
  the accumulation reads the entry as it is after the refresh, if there was one.
\<close>

definition neutron_body ::
  "Library \<Rightarrow> Material \<Rightarrow> Particle \<Rightarrow> int \<Rightarrow> nat \<Rightarrow> nat \<times> bool \<times> Simulation
     \<Rightarrow> error + nat \<times> bool \<times> Simulation" where
  "neutron_body L m p i_grid i st =
     (case st of (j, check_sab, sim) \<Rightarrow>
        (case sab_lookup L m p i j check_sab of
           Inl e \<Rightarrow> Inl e
         | Inr ((i_sab, sf), j', check_sab') \<Rightarrow>
             (let i_nuclide = nuclide m ! i;
                  sim1 = refresh_nuclide L p i_grid i_nuclide i_sab sf sim
              in case vec_at (atom_density m) (int i) of
                   Inl e \<Rightarrow> Inl e
                 | Inr a \<Rightarrow>
                     Inr (j', check_sab',
                          sim1\<lparr>material_xs :=
                                 add_neutron a (micro_xs sim1 i_nuclide) (material_xs sim1)\<rparr>))))"

text \<open>The loop run for the first \<open>n\<close> slots; the source runs it for all of them.\<close>

definition neutron_loop ::
  "Library \<Rightarrow> Material \<Rightarrow> Particle \<Rightarrow> nat \<Rightarrow> Simulation \<Rightarrow> error + nat \<times> bool \<times> Simulation" where
  "neutron_loop L m p n sim =
     for_loop n (neutron_body L m p (log_grid_index L (E p)))
       (0, thermal_tables m \<noteq> [], sim)"

definition calculate_neutron_xs ::
  "Library \<Rightarrow> Material \<Rightarrow> Particle \<Rightarrow> Simulation \<Rightarrow> error + Simulation" where
  "calculate_neutron_xs L m p sim =
     (case neutron_loop L m p (length (nuclide m)) sim of
        Inl e \<Rightarrow> Inl e
      | Inr (j, check_sab, sim') \<Rightarrow> Inr sim')"

subsection \<open>\<^verbatim>\<open>Material::calculate_photon_xs\<close>\<close>

definition refresh_element :: "Library \<Rightarrow> Particle \<Rightarrow> int \<Rightarrow> Simulation \<Rightarrow> Simulation" where
  "refresh_element L p i_element sim =
     (if dne (E p) (ElementMicroXS.last_E (micro_photon_xs sim i_element)) then
        sim\<lparr>micro_photon_xs := element_calculate_xs L i_element (E p) (micro_photon_xs sim),
            xs_calls := xs_calls sim @ [ElementCall i_element (E p)]\<rparr>
      else sim)"

definition add_photon :: "double \<Rightarrow> ElementMicroXS \<Rightarrow> MaterialMacroXS \<Rightarrow> MaterialMacroXS" where
  "add_photon a micro x =
     x\<lparr>total := dadd (total x) (dmul a (ElementMicroXS.total micro)),
       coherent := dadd (coherent x) (dmul a (ElementMicroXS.coherent micro)),
       incoherent := dadd (incoherent x) (dmul a (ElementMicroXS.incoherent micro)),
       photoelectric := dadd (photoelectric x) (dmul a (ElementMicroXS.photoelectric micro)),
       pair_production :=
         dadd (pair_production x) (dmul a (ElementMicroXS.pair_production micro))\<rparr>"

definition photon_body ::
  "Library \<Rightarrow> Material \<Rightarrow> Particle \<Rightarrow> nat \<Rightarrow> Simulation \<Rightarrow> error + Simulation" where
  "photon_body L m p i sim =
     (case vec_at (element m) (int i) of
        Inl e \<Rightarrow> Inl e
      | Inr i_element \<Rightarrow>
          (let sim1 = refresh_element L p i_element sim
           in case vec_at (atom_density m) (int i) of
                Inl e \<Rightarrow> Inl e
              | Inr a \<Rightarrow>
                  Inr (sim1\<lparr>material_xs :=
                         add_photon a (micro_photon_xs sim1 i_element) (material_xs sim1)\<rparr>)))"

definition calculate_photon_xs ::
  "Library \<Rightarrow> Material \<Rightarrow> Particle \<Rightarrow> Simulation \<Rightarrow> error + Simulation" where
  "calculate_photon_xs L m p sim =
     for_loop (length (nuclide m)) (photon_body L m p)
       (sim\<lparr>material_xs := (material_xs sim)\<lparr>coherent := Fin 0, incoherent := Fin 0,
                               photoelectric := Fin 0, pair_production := Fin 0\<rparr>\<rparr>)"

subsection \<open>\<^verbatim>\<open>Material::calculate_xs\<close>\<close>

definition calculate_xs ::
  "Library \<Rightarrow> Material \<Rightarrow> Particle \<Rightarrow> Simulation \<Rightarrow> error + Simulation" where
  "calculate_xs L m p sim =
     (let sim0 = sim\<lparr>material_xs := (material_xs sim)\<lparr>total := Fin 0, absorption := Fin 0,
                                        fission := Fin 0, nu_fission := Fin 0\<rparr>\<rparr>
      in if ptype p = neutron then calculate_neutron_xs L m p sim0
         else if ptype p = photon then calculate_photon_xs L m p sim0
         else Inr sim0)"

section \<open>Geometry\<close>

text \<open>
  Modelled from the spec: the fill type of a cell and the type of a lattice
  (\<^verbatim>\<open>cell.h\<close> and \<^verbatim>\<open>lattice.h\<close> are not part of the sources).
\<close>

datatype Fill = FILL_MATERIAL | FILL_UNIVERSE | FILL_LATTICE

datatype LatticeType = rect | hex

record Cell =
  c_id :: int
  c_universe :: int
  c_type :: Fill
  fill :: int
  c_material :: "int list"
  c_sqrtkT :: "double list"
  translation :: vec3
  rotation :: "double list"
  offset :: "int list"
  distribcell_index :: int
  simple :: bool
  neighbors :: "int list"

record Universe =
  u_id :: int
  u_cells :: "int list"

record Lattice =
  lat_id :: int
  lat_type :: LatticeType
  outer :: int

text \<open>
  The registries \<^verbatim>\<open>model::cells\<close>, \<^verbatim>\<open>model::universes\<close>, \<^verbatim>\<open>model::lattices\<close> and the
  number of entries of \<^verbatim>\<open>model::surfaces\<close>, with the member functions of cells,
  lattices and surfaces whose code is not part of the sources.  A member function takes
  the index of its object in the registry as first argument.  \<open>verbose\<close> is the
  condition \<^verbatim>\<open>settings::verbosity >= 10 || simulation::trace\<close>.
\<close>

record Geometry =
  cells :: "Cell list"
  universes :: "Universe list"
  lattices :: "Lattice list"
  n_surfaces :: nat
  root_universe :: int
  verbose :: bool
  contains :: "int \<Rightarrow> vec3 \<Rightarrow> vec3 \<Rightarrow> int \<Rightarrow> bool"
  cell_distance :: "int \<Rightarrow> vec3 \<Rightarrow> vec3 \<Rightarrow> int \<Rightarrow> double \<times> int"
  surface_normal :: "int \<Rightarrow> vec3 \<Rightarrow> vec3"
  are_valid_indices :: "int \<Rightarrow> ijk \<Rightarrow> bool"
  get_indices :: "int \<Rightarrow> vec3 \<Rightarrow> ijk"
  get_local_position :: "int \<Rightarrow> vec3 \<Rightarrow> ijk \<Rightarrow> vec3"
  lat_universe :: "int \<Rightarrow> ijk \<Rightarrow> int"
  lat_offset :: "int \<Rightarrow> int \<Rightarrow> ijk \<Rightarrow> int"
  lat_distance :: "int \<Rightarrow> vec3 \<Rightarrow> vec3 \<Rightarrow> ijk \<Rightarrow> double \<times> ijk"

text \<open>What the locator reports through \<^verbatim>\<open>write_message\<close>, \<^verbatim>\<open>warning\<close> and \<^verbatim>\<open>mark_as_lost\<close>.\<close>

datatype event =
  EnteringCell int
| OutsideLattice int int
| NegativeLatticeDistance int

type_synonym pstate = "Particle \<times> event list"

definition lattice_ijk :: "LocalCoord \<Rightarrow> ijk" where
  "lattice_ijk cd = (lattice_x cd, lattice_y cd, lattice_z cd)"

subsection \<open>\<^verbatim>\<open>find_cell_inner\<close>\<close>

text \<open>
  The search loop over the candidate cells (the neighbour list, or the cells of the
  universe of the deepest frame): cells of another universe are skipped, the first cell
  that contains the particle ends the loop.
\<close>

fun search_cells :: "Geometry \<Rightarrow> Particle \<Rightarrow> int list \<Rightarrow> error + int option" where
  "search_cells G p [] = Inr None"
| "search_cells G p (i_cell # rest) =
     (case vec_at (coord p) (n_coord p - 1) of
        Inl e \<Rightarrow> Inl e
      | Inr cd \<Rightarrow>
          (case vec_at (cells G) i_cell of
             Inl e \<Rightarrow> Inl e
           | Inr c \<Rightarrow>
               if c_universe c \<noteq> universe cd then search_cells G p rest
               else if contains G i_cell (xyz cd) (uvw cd) (surface p) then Inr (Some i_cell)
               else search_cells G p rest))"

definition candidates :: "Geometry \<Rightarrow> Particle \<Rightarrow> int list option \<Rightarrow> error + int list" where
  "candidates G p neighbor_list =
     (case neighbor_list of
        Some nl \<Rightarrow> Inr nl
      | None \<Rightarrow>
          (case vec_at (coord p) (n_coord p - 1) of
             Inl e \<Rightarrow> Inl e
           | Inr cd \<Rightarrow>
               (case vec_at (universes G) (universe cd) of
                  Inl e \<Rightarrow> Inl e
                | Inr u \<Rightarrow> Inr (u_cells u))))"

definition update_coord :: "Particle \<Rightarrow> int \<Rightarrow> (LocalCoord \<Rightarrow> LocalCoord) \<Rightarrow> error + Particle" where
  "update_coord p i f =
     (case vec_at (coord p) i of
        Inl e \<Rightarrow> Inl e
      | Inr cd \<Rightarrow> Inr (p\<lparr>coord := (coord p)[nat i := f cd]\<rparr>))"

text \<open>
  The distribcell offset: one iteration of the loop over the frames \<open>0 .. n_coord - 1\<close>
  for the terminal cell \<open>c\<close>.
\<close>

definition offset_body :: "Geometry \<Rightarrow> Particle \<Rightarrow> Cell \<Rightarrow> nat \<Rightarrow> int \<Rightarrow> error + int" where
  "offset_body G p c i off =
     (case vec_at (coord p) (int i) of
        Inl e \<Rightarrow> Inl e
      | Inr cd \<Rightarrow>
          (case vec_at (cells G) (cell cd) of
             Inl e \<Rightarrow> Inl e
           | Inr c_i \<Rightarrow>
               if c_type c_i = FILL_UNIVERSE then
                 (case vec_at (offset c_i) (distribcell_index c) of
                    Inl e \<Rightarrow> Inl e
                  | Inr d \<Rightarrow> Inr (off + d))
               else if c_type c_i = FILL_LATTICE then
                 (case vec_at (coord p) (int i + 1) of
                    Inl e \<Rightarrow> Inl e
                  | Inr cn \<Rightarrow>
                      (case vec_at (lattices G) (lattice cn - 1) of
                         Inl e \<Rightarrow> Inl e
                       | Inr lat \<Rightarrow>
                           if are_valid_indices G (lattice cn - 1) (lattice_ijk cn) then
                             Inr (off + lat_offset G (lattice cn - 1) (distribcell_index c)
                                          (lattice_ijk cn))
                           else Inr off))
               else Inr off))"

definition find_instance :: "Geometry \<Rightarrow> Particle \<Rightarrow> Cell \<Rightarrow> error + int" where
  "find_instance G p c =
     (if 1 < length (c_material c) \<or> 1 < length (c_sqrtkT c) then
        for_loop (nat (n_coord p)) (offset_body G p c) 0
      else Inr 0)"

text \<open>The \<^verbatim>\<open>FILL_MATERIAL\<close> branch: the lowest coordinate level has been reached.\<close>

definition enter_material :: "constants \<Rightarrow> Geometry \<Rightarrow> Particle \<Rightarrow> Cell \<Rightarrow> error + Particle" where
  "enter_material K G p c =
     (case find_instance G p c of
        Inl e \<Rightarrow> Inl e
      | Inr inst \<Rightarrow>
          (case vec_at (c_material c) (if 1 < length (c_material c) then inst else 0) of
             Inl e \<Rightarrow> Inl e
           | Inr mat \<Rightarrow>
               (case vec_at (c_sqrtkT c) (if 1 < length (c_sqrtkT c) then inst else 0) of
                  Inl e \<Rightarrow> Inl e
                | Inr t \<Rightarrow>
                    Inr (p\<lparr>cell_instance := inst,
                           last_material := material p,
                           material := (if mat = MATERIAL_VOID K then MATERIAL_VOID K else mat + 1),
                           last_sqrtkT := sqrtkT p,
                           sqrtkT := t\<rparr>))))"

text \<open>
  The \<^verbatim>\<open>FILL_UNIVERSE\<close> branch up to the recursive call.  The rotation is read from the
  entries \<open>3 .. 11\<close> of \<^verbatim>\<open>rotation_\<close>.
\<close>

definition dot3 :: "vec3 \<Rightarrow> double \<Rightarrow> double \<Rightarrow> double \<Rightarrow> double" where
  "dot3 v a b c = (case v of (x, y, z) \<Rightarrow> dadd (dadd (dmul x a) (dmul y b)) (dmul z c))"

definition rotate :: "double list \<Rightarrow> vec3 \<Rightarrow> error + vec3" where
  "rotate rot v =
     (if length rot < 12 then Inl OutOfBounds
      else Inr (dot3 v (rot ! 3) (rot ! 4) (rot ! 5),
                dot3 v (rot ! 6) (rot ! 7) (rot ! 8),
                dot3 v (rot ! 9) (rot ! 10) (rot ! 11)))"

definition translate :: "vec3 \<Rightarrow> vec3 \<Rightarrow> vec3" where
  "translate r t =
     (case r of (x, y, z) \<Rightarrow> case t of (tx, ty, tz) \<Rightarrow> (dsub x tx, dsub y ty, dsub z tz))"

definition enter_universe :: "Particle \<Rightarrow> Cell \<Rightarrow> error + Particle" where
  "enter_universe p c =
     (case vec_at (coord p) (n_coord p - 1) of
        Inl e \<Rightarrow> Inl e
      | Inr cd \<Rightarrow>
          (case update_coord p (n_coord p)
                  (\<lambda>nx. nx\<lparr>universe := fill c, xyz := translate (xyz cd) (translation c),
                            uvw := uvw cd\<rparr>) of
             Inl e \<Rightarrow> Inl e
           | Inr p1 \<Rightarrow>
               if rotation c = [] then Inr (p1\<lparr>n_coord := n_coord p + 1\<rparr>)
               else
                 (case rotate (rotation c) (translate (xyz cd) (translation c)) of
                    Inl e \<Rightarrow> Inl e
                  | Inr r \<Rightarrow>
                      (case rotate (rotation c) (uvw cd) of
                         Inl e \<Rightarrow> Inl e
                       | Inr u \<Rightarrow>
                           (case update_coord p1 (n_coord p)
                                   (\<lambda>nx. nx\<lparr>xyz := r, uvw := u, rotated := True\<rparr>) of
                              Inl e \<Rightarrow> Inl e
                            | Inr p2 \<Rightarrow> Inr (p2\<lparr>n_coord := n_coord p + 1\<rparr>))))))"

text \<open>
  The \<^verbatim>\<open>FILL_LATTICE\<close> branch up to the recursive call.  The result \<open>(False, st)\<close> is
  the early \<^verbatim>\<open>return false\<close> after the warning; \<open>(True, st)\<close> goes on to the recursive
  call.
\<close>

definition nudge :: "constants \<Rightarrow> vec3 \<Rightarrow> vec3 \<Rightarrow> vec3" where
  "nudge K r u =
     (case r of (x, y, z) \<Rightarrow> case u of (ux, uy, uz) \<Rightarrow>
        (dadd x (dmul (TINY_BIT K) ux), dadd y (dmul (TINY_BIT K) uy),
         dadd z (dmul (TINY_BIT K) uz)))"

definition enter_lattice :: "constants \<Rightarrow> Geometry \<Rightarrow> pstate \<Rightarrow> Cell \<Rightarrow> error + bool \<times> pstate" where
  "enter_lattice K G st c =
     (case st of (p, ev) \<Rightarrow>
        (case vec_at (lattices G) (fill c) of
           Inl e \<Rightarrow> Inl e
         | Inr lat \<Rightarrow>
             (case vec_at (coord p) (n_coord p - 1) of
                Inl e \<Rightarrow> Inl e
              | Inr cd \<Rightarrow>
                  (let i_xyz = get_indices G (fill c) (nudge K (xyz cd) (uvw cd));
                       r = get_local_position G (fill c) (xyz cd) i_xyz
                   in case update_coord p (n_coord p)
                             (\<lambda>nx. nx\<lparr>xyz := r, uvw := uvw cd, lattice := fill c + 1,
                                       lattice_x := fst i_xyz, lattice_y := fst (snd i_xyz),
                                       lattice_z := snd (snd i_xyz)\<rparr>) of
                        Inl e \<Rightarrow> Inl e
                      | Inr p1 \<Rightarrow>
                          if are_valid_indices G (fill c) i_xyz then
                            (case update_coord p1 (n_coord p)
                                    (\<lambda>nx. nx\<lparr>universe := lat_universe G (fill c) i_xyz\<rparr>) of
                               Inl e \<Rightarrow> Inl e
                             | Inr p2 \<Rightarrow> Inr (True, p2\<lparr>n_coord := n_coord p + 1\<rparr>, ev))
                          else if outer lat \<noteq> NO_OUTER_UNIVERSE K then
                            (case update_coord p1 (n_coord p) (\<lambda>nx. nx\<lparr>universe := outer lat\<rparr>) of
                               Inl e \<Rightarrow> Inl e
                             | Inr p2 \<Rightarrow> Inr (True, p2\<lparr>n_coord := n_coord p + 1\<rparr>, ev))
                          else Inr (False, p1, ev @ [OutsideLattice (p_id p) (lat_id lat)])))))"

text \<open>
  The body of \<^verbatim>\<open>find_cell_inner\<close> up to its recursive call: \<open>Return\<close> is a
  \<^verbatim>\<open>return\<close> with the given value, \<open>Recurse\<close> the tail call
  \<^verbatim>\<open>find_cell_inner(p, nullptr)\<close> on the given state.
\<close>

datatype step = Return bool pstate | Recurse pstate

definition find_cell_body ::
  "constants \<Rightarrow> Geometry \<Rightarrow> pstate \<Rightarrow> int list option \<Rightarrow> error + step" where
  "find_cell_body K G st neighbor_list =
     (case st of (p, ev) \<Rightarrow>
        (case candidates G p neighbor_list of
           Inl e \<Rightarrow> Inl e
         | Inr cands \<Rightarrow>
             (case search_cells G p cands of
                Inl e \<Rightarrow> Inl e
              | Inr None \<Rightarrow> Inr (Return False (p, ev))
              | Inr (Some i_cell) \<Rightarrow>
                  (case update_coord p (n_coord p - 1) (\<lambda>cd. cd\<lparr>cell := i_cell\<rparr>) of
                     Inl e \<Rightarrow> Inl e
                   | Inr p1 \<Rightarrow>
                       (case vec_at (cells G) i_cell of
                          Inl e \<Rightarrow> Inl e
                        | Inr c \<Rightarrow>
                            (let ev1 = (if verbose G then ev @ [EnteringCell (c_id c)] else ev)
                             in case c_type c of
                                  FILL_MATERIAL \<Rightarrow>
                                    (case enter_material K G p1 c of
                                       Inl e \<Rightarrow> Inl e
                                     | Inr p2 \<Rightarrow> Inr (Return True (p2, ev1)))
                                | FILL_UNIVERSE \<Rightarrow>
                                    (case enter_universe p1 c of
                                       Inl e \<Rightarrow> Inl e
                                     | Inr p2 \<Rightarrow> Inr (Recurse (p2, ev1)))
                                | FILL_LATTICE \<Rightarrow>
                                    (case enter_lattice K G (p1, ev1) c of
                                       Inl e \<Rightarrow> Inl e
                                     | Inr (True, st2) \<Rightarrow> Inr (Recurse st2)
                                     | Inr (False, st2) \<Rightarrow> Inr (Return False st2))))))))"

text \<open>A recursive call happens one frame deeper, in an array of the same length.\<close>

lemma update_coord_Inr:
  "update_coord p i f = Inr p' \<Longrightarrow>
     n_coord p' = n_coord p \<and> length (coord p') = length (coord p)
     \<and> 0 \<le> i \<and> i < int (length (coord p))"
  by (auto simp: update_coord_def vec_at_def split: if_splits sum.splits)

lemma enter_universe_deeper:
  "enter_universe p c = Inr p' \<Longrightarrow>
     n_coord p' = n_coord p + 1 \<and> length (coord p') = length (coord p)
     \<and> n_coord p < int (length (coord p))"
  unfolding enter_universe_def
  by (auto split: sum.splits if_splits dest!: update_coord_Inr)

lemma enter_lattice_deeper:
  "enter_lattice K G (p, ev) c = Inr (True, p', ev') \<Longrightarrow>
     n_coord p' = n_coord p + 1 \<and> length (coord p') = length (coord p)
     \<and> n_coord p < int (length (coord p))"
  unfolding enter_lattice_def Let_def
  by (auto split: sum.splits if_splits dest!: update_coord_Inr)

lemma find_cell_body_deeper:
  assumes "find_cell_body K G (p, ev) nl = Inr (Recurse (p', ev'))"
  shows "int (length (coord p')) - n_coord p' < int (length (coord p)) - n_coord p
         \<and> 0 \<le> int (length (coord p')) - n_coord p'"
proof -
  from assms obtain p1 c ev1 where
    p1: "n_coord p1 = n_coord p" "length (coord p1) = length (coord p)"
    and br: "enter_universe p1 c = Inr p' \<or> enter_lattice K G (p1, ev1) c = Inr (True, p', ev')"
    unfolding find_cell_body_def Let_def
    by (auto split: sum.splits option.splits Fill.splits bool.splits prod.splits
             dest!: update_coord_Inr)
  from br show ?thesis
  proof
    assume "enter_universe p1 c = Inr p'"
    from enter_universe_deeper [OF this] p1 show ?thesis by simp
  next
    assume "enter_lattice K G (p1, ev1) c = Inr (True, p', ev')"
    from enter_lattice_deeper [OF this] p1 show ?thesis by simp
  qed
qed

function find_cell_inner ::
  "constants \<Rightarrow> Geometry \<Rightarrow> pstate \<Rightarrow> int list option \<Rightarrow> error + bool \<times> pstate" where
  "find_cell_inner K G st neighbor_list =
     (case find_cell_body K G st neighbor_list of
        Inl e \<Rightarrow> Inl e
      | Inr (Return found st') \<Rightarrow> Inr (found, st')
      | Inr (Recurse st') \<Rightarrow> find_cell_inner K G st' None)"
  by pat_completeness auto
termination
proof (relation "measure (\<lambda>(K, G, st, nl). nat (int (length (coord (fst st))) - n_coord (fst st)))")
  show "wf (measure (\<lambda>(K, G, st, nl). nat (int (length (coord (fst st))) - n_coord (fst st))))"
    by simp
next
  fix K :: constants and G :: Geometry and st :: pstate and neighbor_list :: "int list option"
    and x :: step and st' :: pstate
  assume "find_cell_body K G st neighbor_list = Inr x" and "x = Recurse st'"
  then have "find_cell_body K G (fst st, snd st) neighbor_list = Inr (Recurse (fst st', snd st'))"
    by simp
  from find_cell_body_deeper [OF this]
  show "((K, G, st', None), (K, G, st, neighbor_list))
        \<in> measure (\<lambda>(K, G, st, nl). nat (int (length (coord (fst st))) - n_coord (fst st)))"
    by simp
qed

declare find_cell_inner.simps [simp del]

subsection \<open>\<^verbatim>\<open>find_cell\<close>\<close>

text \<open>
  Modelled from the spec: \<^verbatim>\<open>LocalCoord::reset\<close> is not part of the sources; by the spec
  it clears the cell id, the lattice id and the rotation flag of a frame.
\<close>

definition reset :: "constants \<Rightarrow> LocalCoord \<Rightarrow> LocalCoord" where
  "reset K cd = cd\<lparr>cell := C_NONE, lattice := F90_NONE K, rotated := False\<rparr>"

text \<open>The start of \<^verbatim>\<open>find_cell\<close>: the root universe is seeded, the deeper frames are reset.\<close>

definition prepare :: "constants \<Rightarrow> Geometry \<Rightarrow> Particle \<Rightarrow> error + Particle" where
  "prepare K G p =
     (case vec_at (coord p) (n_coord p - 1) of
        Inl e \<Rightarrow> Inl e
      | Inr cd \<Rightarrow>
          (case (if universe cd = C_NONE
                 then (case update_coord p 0 (\<lambda>c0. c0\<lparr>universe := root_universe G\<rparr>) of
                         Inl e \<Rightarrow> Inl e
                       | Inr p1 \<Rightarrow> Inr (p1\<lparr>n_coord := 1\<rparr>))
                 else Inr p) of
             Inl e \<Rightarrow> Inl e
           | Inr p1 \<Rightarrow>
               Inr (p1\<lparr>coord := take (nat (n_coord p1)) (coord p1)
                                  @ map (reset K) (drop (nat (n_coord p1)) (coord p1))\<rparr>)))"

text \<open>
  \<^verbatim>\<open>find_cell\<close> appends to the neighbour list of the previous cell, so it returns the
  registry of cells as well.
\<close>

definition find_cell ::
  "constants \<Rightarrow> Geometry \<Rightarrow> pstate \<Rightarrow> bool \<Rightarrow> error + bool \<times> pstate \<times> Geometry" where
  "find_cell K G st use_neighbor_lists =
     (case st of (p, ev) \<Rightarrow>
        (case prepare K G p of
           Inl e \<Rightarrow> Inl e
         | Inr p0 \<Rightarrow>
             if use_neighbor_lists then
               (case vec_at (coord p0) (n_coord p0 - 1) of
                  Inl e \<Rightarrow> Inl e
                | Inr cd \<Rightarrow>
                    (case vec_at (cells G) (cell cd) of
                       Inl e \<Rightarrow> Inl e
                     | Inr c \<Rightarrow>
                         (case find_cell_inner K G (p0, ev) (Some (neighbors c)) of
                            Inl e \<Rightarrow> Inl e
                          | Inr (True, st1) \<Rightarrow> Inr (True, st1, G)
                          | Inr (False, st1) \<Rightarrow>
                              (case find_cell_inner K G st1 None of
                                 Inl e \<Rightarrow> Inl e
                               | Inr (False, st2) \<Rightarrow> Inr (False, st2, G)
                               | Inr (True, st2) \<Rightarrow>
                                   (case vec_at (coord (fst st2)) (n_coord p0 - 1) of
                                      Inl e \<Rightarrow> Inl e
                                    | Inr cd2 \<Rightarrow>
                                        Inr (True, st2,
                                             G\<lparr>cells := (cells G)[nat (cell cd) :=
                                                  c\<lparr>neighbors := neighbors c @ [cell cd2]\<rparr>]\<rparr>))))))
             else
               (case find_cell_inner K G (p0, ev) None of
                  Inl e \<Rightarrow> Inl e
                | Inr (found, st1) \<Rightarrow> Inr (found, st1, G))))"

subsection \<open>\<^verbatim>\<open>distance_to_boundary\<close>\<close>

text \<open>
  The loop state: the four results, the locals \<^verbatim>\<open>d_lat\<close> and \<^verbatim>\<open>level_lat_trans\<close>, which
  are declared before the loop and keep their value from one level to the next, and
  the particle with the log of events.
\<close>

record Boundary =
  dist :: double
  surface_crossed :: int
  lattice_translation :: ijk
  next_level :: int
  d_lat :: double
  level_lat_trans :: ijk
  part :: pstate

text \<open>
  Modelled from the spec: \<^verbatim>\<open>Particle::mark_as_lost\<close> is not part of the sources; it
  reports the loss and the particle is no longer alive.
\<close>

definition mark_as_lost :: "event \<Rightarrow> pstate \<Rightarrow> pstate" where
  "mark_as_lost msg st = (case st of (p, ev) \<Rightarrow> (p\<lparr>alive := False\<rparr>, ev @ [msg]))"

text \<open>
  The lattice distance of level \<open>i\<close>: \<open>None\<close> when the frame is not inside a lattice.
  A rectangular lattice gets the position of the frame, a hexagonal one the x and y of
  the frame above.
\<close>

definition level_lattice :: "constants \<Rightarrow> Geometry \<Rightarrow> Particle \<Rightarrow> nat \<Rightarrow> error + (double \<times> ijk) option" where
  "level_lattice K G p i =
     (case vec_at (coord p) (int i) of
        Inl e \<Rightarrow> Inl e
      | Inr cd \<Rightarrow>
          if lattice cd \<noteq> F90_NONE K then
            (case vec_at (lattices G) (lattice cd - 1) of
               Inl e \<Rightarrow> Inl e
             | Inr lat \<Rightarrow>
                 (case lat_type lat of
                    rect \<Rightarrow>
                      Inr (Some (lat_distance G (lattice cd - 1) (xyz cd) (uvw cd) (lattice_ijk cd)))
                  | hex \<Rightarrow>
                      (case vec_at (coord p) (int i - 1) of
                         Inl e \<Rightarrow> Inl e
                       | Inr up \<Rightarrow>
                           Inr (Some (lat_distance G (lattice cd - 1)
                                        (fst (xyz up), fst (snd (xyz up)), snd (snd (xyz cd)))
                                        (uvw cd) (lattice_ijk cd))))))
          else Inr None)"

definition update_lattice :: "Particle \<Rightarrow> (double \<times> ijk) option \<Rightarrow> Boundary \<Rightarrow> Boundary" where
  "update_lattice p ld b =
     (case ld of
        None \<Rightarrow> b
      | Some (d, t) \<Rightarrow>
          (let b1 = b\<lparr>d_lat := d, level_lat_trans := t\<rparr>
           in if dlt d (Fin 0)
              then b1\<lparr>part := mark_as_lost (NegativeLatticeDistance (p_id p)) (part b1)\<rparr>
              else b1))"

text \<open>The test under which a candidate replaces the distance found on the levels above.\<close>

definition replaces :: "constants \<Rightarrow> double \<Rightarrow> double \<Rightarrow> bool" where
  "replaces K d cand = (deq d PInf \<or> dge (ddiv (dsub d cand) d) (FP_REL_PRECISION K))"

text \<open>The surface that is reported as crossed when the surface candidate wins.\<close>

definition hit_point :: "vec3 \<Rightarrow> double \<Rightarrow> vec3 \<Rightarrow> vec3" where
  "hit_point r d u =
     (case r of (x, y, z) \<Rightarrow> case u of (ux, uy, uz) \<Rightarrow>
        (dadd x (dmul d ux), dadd y (dmul d uy), dadd z (dmul d uz)))"

definition crossed_surface :: "Geometry \<Rightarrow> Cell \<Rightarrow> LocalCoord \<Rightarrow> double \<Rightarrow> int \<Rightarrow> error + int" where
  "crossed_surface G c cd d_surf level_surf_cross =
     (if simple c then Inr level_surf_cross
      else if 0 \<le> \<bar>level_surf_cross\<bar> - 1 \<and> \<bar>level_surf_cross\<bar> - 1 < int (n_surfaces G) then
        (case surface_normal G (\<bar>level_surf_cross\<bar> - 1) (hit_point (xyz cd) d_surf (uvw cd)) of
           (nx, ny, nz) \<Rightarrow>
             if dgt (dot3 (uvw cd) nx ny nz) (Fin 0) then Inr \<bar>level_surf_cross\<bar>
             else Inr (- \<bar>level_surf_cross\<bar>))
      else Inl OutOfBounds)"

definition choose_boundary ::
  "constants \<Rightarrow> Geometry \<Rightarrow> nat \<Rightarrow> Cell \<Rightarrow> LocalCoord \<Rightarrow> double \<times> int \<Rightarrow> Boundary \<Rightarrow> error + Boundary" where
  "choose_boundary K G i c cd sd b =
     (case sd of (d_surf, level_surf_cross) \<Rightarrow>
        if dlt d_surf (d_lat b) then
          (if replaces K (dist b) d_surf then
             (case crossed_surface G c cd d_surf level_surf_cross of
                Inl e \<Rightarrow> Inl e
              | Inr sc \<Rightarrow>
                  Inr (b\<lparr>dist := d_surf, surface_crossed := sc, lattice_translation := (0, 0, 0),
                         next_level := int i + 1\<rparr>))
           else Inr b)
        else
          (if replaces K (dist b) (d_lat b) then
             Inr (b\<lparr>dist := d_lat b, surface_crossed := F90_NONE K,
                    lattice_translation := level_lat_trans b, next_level := int i + 1\<rparr>)
           else Inr b))"

text \<open>One iteration of the loop over the coordinate levels.\<close>

definition level_body :: "constants \<Rightarrow> Geometry \<Rightarrow> Particle \<Rightarrow> nat \<Rightarrow> Boundary \<Rightarrow> error + Boundary" where
  "level_body K G p i b =
     (case vec_at (coord p) (int i) of
        Inl e \<Rightarrow> Inl e
      | Inr cd \<Rightarrow>
          (case vec_at (cells G) (cell cd) of
             Inl e \<Rightarrow> Inl e
           | Inr c \<Rightarrow>
               (case level_lattice K G p i of
                  Inl e \<Rightarrow> Inl e
                | Inr ld \<Rightarrow>
                    choose_boundary K G i c cd
                      (cell_distance G (cell cd) (xyz cd) (uvw cd) (surface p))
                      (update_lattice p ld b))))"

text \<open>
  \<^verbatim>\<open>*surface_crossed\<close> and \<^verbatim>\<open>*next_level\<close> are not written before the loop, and
  \<^verbatim>\<open>level_lat_trans\<close> is not initialised: \<open>sc0\<close>, \<open>nl0\<close> and \<open>lt0\<close> are the values they
  hold on entry.
\<close>

definition boundary_init :: "int \<Rightarrow> int \<Rightarrow> ijk \<Rightarrow> pstate \<Rightarrow> Boundary" where
  "boundary_init sc0 nl0 lt0 st =
     \<lparr>dist = PInf, surface_crossed = sc0, lattice_translation = (0, 0, 0), next_level = nl0,
      d_lat = PInf, level_lat_trans = lt0, part = st\<rparr>"

definition distance_to_boundary ::
  "constants \<Rightarrow> Geometry \<Rightarrow> int \<Rightarrow> int \<Rightarrow> ijk \<Rightarrow> pstate \<Rightarrow> error + Boundary" where
  "distance_to_boundary K G sc0 nl0 lt0 st =
     for_loop (nat (n_coord (fst st))) (level_body K G (fst st)) (boundary_init sc0 nl0 lt0 st)"

section \<open>The distribcell instance of the spec\<close>

text \<open>
  The distribcell instance in the words of the spec: the sum over the frames of the
  offset of a universe-filled cell and of the lattice offset at the indices of the next
  frame when these are valid.  It is compared with the loop of the source below.
\<close>

definition spec_frame_offset :: "Geometry \<Rightarrow> Particle \<Rightarrow> Cell \<Rightarrow> nat \<Rightarrow> int" where
  "spec_frame_offset G p c i =
     (let c_i = cells G ! nat (cell (coord p ! i)); nx = coord p ! (i + 1)
      in case c_type c_i of
           FILL_UNIVERSE \<Rightarrow> offset c_i ! nat (distribcell_index c)
         | FILL_LATTICE \<Rightarrow>
             if are_valid_indices G (lattice nx - 1) (lattice_ijk nx)
             then lat_offset G (lattice nx - 1) (distribcell_index c) (lattice_ijk nx)
             else 0
         | FILL_MATERIAL \<Rightarrow> 0)"

definition spec_cell_instance :: "Geometry \<Rightarrow> Particle \<Rightarrow> Cell \<Rightarrow> int" where
  "spec_cell_instance G p c = (\<Sum>i < nat (n_coord p). spec_frame_offset G p c i)"

section \<open>Concrete inputs\<close>

text \<open>
  Two nuclides, and a material that lists the first of them twice (as a material file
  with two \<^verbatim>\<open>nuclide\<close> elements of the same name does).
\<close>

definition H1 :: Nuclide where
  "H1 = \<lparr>nuc_name = ''H1'', awr = Fin 1\<rparr>"

definition O16 :: Nuclide where
  "O16 = \<lparr>nuc_name = ''O16'', awr = Fin 16\<rparr>"

definition water :: Material where
  "water = \<lparr>mat_id = 10, nuclide = [0, 0, 1], element = [],
            atom_density = [Fin 2, Fin 2, Fin 1], density = Fin 5, density_gpcc = Fin 20,
            mat_nuclide_index = [], thermal_tables = []\<rparr>"

definition steam :: Material where
  "steam = \<lparr>mat_id = 20, nuclide = [0, 1], element = [],
            atom_density = [Fin 2, Fin 1], density = Fin 3, density_gpcc = Fin 18,
            mat_nuclide_index = [], thermal_tables = []\<rparr>"



definition registry :: Registry where
  "registry = \<lparr>materials = [water, steam], material_map = [10 \<mapsto> 0, 20 \<mapsto> 1],
               nuclides = [H1, O16]\<rparr>"

text \<open>
  Values for the constants: the binary64 numbers that the decimal literals
  \<^verbatim>\<open>1.00866491588\<close> (the neutron mass in amu), \<^verbatim>\<open>0.6022140857\<close> (Avogadro's number in units
  of 10 to the 24 per mol), \<^verbatim>\<open>1e-5\<close> and \<^verbatim>\<open>1e-8\<close> denote.  The general theorems do not
  depend on them.
\<close>

definition K0 :: constants where
  "K0 = \<lparr>MASS_NEUTRON = Fin (4542622939298861 / 4503599627370496),
          N_AVOGADRO = Fin (339016391494473 / 562949953421312),
          FP_REL_PRECISION = Fin (5902958103587057 / 590295810358705651712),
          TINY_BIT = Fin (3022314549036573 / 302231454903657293676544),
          MATERIAL_VOID = - 1, F90_NONE = 0, NO_OUTER_UNIVERSE = - 1\<rparr>"

text \<open>
  A library whose refresh stamps the entry of the nuclide (or element) with the values
  it was called for and leaves the cross sections as they are; every thermal table has
  its threshold at 4 eV.
\<close>

definition L0 :: Library where
  "L0 = \<lparr>nuclide_calculate_xs = (\<lambda>i_nuclide i_sab e i_grid kt sf cache.
            cache(i_nuclide := (cache i_nuclide)\<lparr>index_sab := i_sab, sab_frac := sf,
                                   NuclideMicroXS.last_E := e, NuclideMicroXS.last_sqrtkT := kt\<rparr>)),
          element_calculate_xs = (\<lambda>i_element e cache.
            cache(i_element := (cache i_element)\<lparr>ElementMicroXS.last_E := e\<rparr>)),
          threshold = (\<lambda>i_sab. Fin 4),
          log_grid_index = (\<lambda>e. 0)\<rparr>"

definition micro0 :: NuclideMicroXS where
  "micro0 = \<lparr>NuclideMicroXS.total = Fin 3, NuclideMicroXS.absorption = Fin 1,
              NuclideMicroXS.fission = Fin 0, NuclideMicroXS.nu_fission = Fin 0,
              elastic = Fin 2, thermal = Fin 0, thermal_elastic = Fin 0,
              NuclideMicroXS.photon_prod = Fin 0,
              reaction = [], index_grid = 0, index_temp = 0, interp_factor = Fin 0,
              index_sab = - 1, index_temp_sab = 0, sab_frac = Fin 0, use_ptable = False,
              NuclideMicroXS.last_E = Fin 0, NuclideMicroXS.last_sqrtkT = Fin 0\<rparr>"

definition photon0 :: ElementMicroXS where
  "photon0 = \<lparr>ElementMicroXS.total = Fin 4, ElementMicroXS.coherent = Fin 1,
               ElementMicroXS.incoherent = Fin 1, ElementMicroXS.photoelectric = Fin 1,
               ElementMicroXS.pair_production = Fin 1, ElementMicroXS.last_E = Fin 0\<rparr>"

text \<open>An accumulator that still holds the values of an earlier evaluation.\<close>

definition sim0 :: Simulation where
  "sim0 = \<lparr>micro_xs = (\<lambda>i. micro0), micro_photon_xs = (\<lambda>i. photon0),
           material_xs = \<lparr>total = Fin 100, absorption = Fin 100, fission = Fin 100,
                           nu_fission = Fin 100,
                           photon_prod = Fin 7, coherent = Fin 5, incoherent = Fin 5,
                           photoelectric = Fin 5, pair_production = Fin 5\<rparr>,
           xs_calls = []\<rparr>"

definition frame0 :: LocalCoord where
  "frame0 = \<lparr>universe = 0, cell = - 1, xyz = (Fin 0, Fin 0, Fin 0), uvw = (Fin 1, Fin 0, Fin 0),
              lattice = 0, lattice_x = 0, lattice_y = 0, lattice_z = 0, rotated = False\<rparr>"

text \<open>A neutron of 1 eV in the root universe; the array of frames has three entries.\<close>

definition neutron1 :: Particle where
  "neutron1 = \<lparr>p_id = 1, ptype = neutron, E = Fin 1, sqrtkT = Fin (1 / 8), last_sqrtkT = Fin 0,
                n_coord = 1, coord = [frame0, frame0, frame0], surface = 0, material = - 1,
                last_material = - 1, cell_instance = 0, alive = True\<rparr>"

text \<open>Hydrogen bound in water: the thermal table 0 applies to slot 0 with fraction 7/8.\<close>

definition light_water :: Material where
  "light_water = steam\<lparr>thermal_tables := [\<lparr>index_table = 0, index_nuclide = 0, fraction = Fin (7 / 8)\<rparr>]\<rparr>"

text \<open>
  A geometry after scenario 5 of the spec.  The root universe 0 holds cell 0, which is
  filled with lattice 0 and bounded by surface 1 at distance 5; every tile of the lattice
  is universe 1, which holds the material cell 1 with one material and two temperatures.
  The lattice has no outer universe; positions with negative x lie outside it.  The
  face of the tile is at distance 5 as well.
\<close>

definition cell0 :: Cell where
  "cell0 = \<lparr>c_id = 100, c_universe = 0, c_type = FILL_LATTICE, fill = 0, c_material = [],
             c_sqrtkT = [], translation = (Fin 0, Fin 0, Fin 0), rotation = [], offset = [],
             distribcell_index = 0, simple = True, neighbors = []\<rparr>"

definition cell1 :: Cell where
  "cell1 = \<lparr>c_id = 101, c_universe = 1, c_type = FILL_MATERIAL, fill = - 1, c_material = [5],
             c_sqrtkT = [Fin (1 / 8), Fin (1 / 4)], translation = (Fin 0, Fin 0, Fin 0),
             rotation = [], offset = [], distribcell_index = 0, simple = True, neighbors = []\<rparr>"

definition G1 :: Geometry where
  "G1 = \<lparr>cells = [cell0, cell1],
         universes = [\<lparr>u_id = 1, u_cells = [0]\<rparr>, \<lparr>u_id = 2, u_cells = [1]\<rparr>],
         lattices = [\<lparr>lat_id = 7, lat_type = rect, outer = - 1\<rparr>],
         n_surfaces = 2, root_universe = 0, verbose = False,
         contains = (\<lambda>i_cell r u s. True),
         cell_distance = (\<lambda>i_cell r u s. if i_cell = 0 then (Fin 5, 1) else (Fin 8, 2)),
         surface_normal = (\<lambda>i_surf r. (Fin 1, Fin 0, Fin 0)),
         are_valid_indices = (\<lambda>i_lat t. t = (0, 0, 0)),
         get_indices = (\<lambda>i_lat r. if dlt (fst r) (Fin 0) then (- 1, 0, 0) else (0, 0, 0)),
         get_local_position = (\<lambda>i_lat r t. r),
         lat_universe = (\<lambda>i_lat t. 1),
         lat_offset = (\<lambda>i_lat i_map t. 1),
         lat_distance = (\<lambda>i_lat r u t. (Fin 5, (1, 0, 0)))\<rparr>"

text \<open>The same geometry with a lattice that reports the distance \<open>-1\<close>.\<close>

definition G2 :: Geometry where
  "G2 = G1\<lparr>lat_distance := (\<lambda>i_lat r u t. (Fin (- 1), (1, 0, 0)))\<rparr>"

text \<open>
  The same geometry, where every lattice other than lattice 0 reports the distance
  \<open>-1\<close>.
\<close>

definition G3 :: Geometry where
  "G3 = G1\<lparr>lat_distance := (\<lambda>i_lat r u t. if i_lat = 0 then (Fin 5, (1, 0, 0))
                                               else (Fin (- 1), (1, 0, 0)))\<rparr>"

text \<open>
  The same geometry with the surface of cell 0 at distance 8, that of cell 1 at 9, and
  the face of the lattice tile at \<open>8 - pow2 (- 20)\<close>.
\<close>

definition G4 :: Geometry where
  "G4 = G1\<lparr>cell_distance := (\<lambda>i_cell r u s. if i_cell = 0 then (Fin 8, 1) else (Fin 9, 2)),
          lat_distance := (\<lambda>i_lat r u t. (Fin (8388607 / 1048576), (1, 0, 0)))\<rparr>"

text \<open>The neutron after it has been located in \<open>G1\<close>: frame 1 is tile \<open>(0, 0, 0)\<close> of the lattice.\<close>

definition located :: Particle where
  "located = neutron1\<lparr>n_coord := 2,
     coord := [frame0\<lparr>cell := 0\<rparr>, frame0\<lparr>universe := 1, cell := 1, lattice := 1\<rparr>, frame0]\<rparr>"

text \<open>
  The neutron after a move out of cell 0 to \<open>x = -1\<close>, which is outside the lattice of
  \<open>G1\<close>.
\<close>

definition outside :: Particle where
  "outside = neutron1\<lparr>coord := [frame0\<lparr>cell := 0, xyz := (Fin (- 1), Fin 0, Fin 0)\<rparr>, frame0, frame0]\<rparr>"

section \<open>A predicate for the proofs\<close>

text \<open>
  The state of the neutron loop has the values of \<^verbatim>\<open>photon_prod\<close> and of the four
  photon partials that the accumulator \<open>x\<close> has.
\<close>

definition keeps_photon_fields :: "MaterialMacroXS \<Rightarrow> nat \<times> bool \<times> Simulation \<Rightarrow> bool" where
  "keeps_photon_fields x st =
     (case st of (j, cs, sim) \<Rightarrow>
        photon_prod (material_xs sim) = photon_prod x
        \<and> coherent (material_xs sim) = coherent x
        \<and> incoherent (material_xs sim) = incoherent x
        \<and> photoelectric (material_xs sim) = photoelectric x
        \<and> pair_production (material_xs sim) = pair_production x)"

section \<open>Rounding to binary64\<close>

text \<open>The rules that evaluate \<open>round64\<close> on a numeral.\<close>

lemmas round64_eval = round64_def exponent_def round_even_def pow2_def bit_length.simps Let_def

lemma round64_zero [simp]: "round64 0 = Fin 0"
  by (simp add: round64_def)

lemma pow2_pos: "0 < pow2 k"
  by (simp add: pow2_def)

lemma round_even_nonneg: "0 \<le> q \<Longrightarrow> 0 \<le> round_even q"
  by (simp add: round_even_def)

text \<open>
  The values of the constants in \<open>K0\<close> are binary64 numbers: the product with one is
  the constant itself.
\<close>

lemma K0_representable:
  "dmul (MASS_NEUTRON K0) (Fin 1) = MASS_NEUTRON K0
   \<and> dmul (N_AVOGADRO K0) (Fin 1) = N_AVOGADRO K0
   \<and> dmul (FP_REL_PRECISION K0) (Fin 1) = FP_REL_PRECISION K0
   \<and> dmul (TINY_BIT K0) (Fin 1) = TINY_BIT K0"
  by (simp add: K0_def round64_eval)

text \<open>Rounding keeps the sign: a number that is not positive is not rounded to a positive one.\<close>

lemma round64_nonpos:
  assumes "x \<le> 0"
  shows "round64 x = NInf \<or> (\<exists>r. round64 x = Fin r \<and> r \<le> 0)"
proof (cases "x = 0")
  case True
  then show ?thesis by simp
next
  case False
  with assms have neg: "x < 0" by simp
  let ?k = "max (exponent \<bar>x\<bar>) (- 1022) - 52"
  let ?n = "round_even (\<bar>x\<bar> / pow2 ?k)"
  have "0 \<le> \<bar>x\<bar> / pow2 ?k" using pow2_pos [of ?k] by simp
  then have "0 \<le> ?n" by (rule round_even_nonneg)
  then have "0 \<le> of_int ?n * pow2 ?k" using pow2_pos [of ?k] by simp
  then have "sgn x * of_int ?n * pow2 ?k \<le> 0" using neg by (simp add: mult.assoc)
  then show ?thesis using neg by (simp add: round64_def Let_def)
qed

text \<open>
  The exponent of a positive number is not above its binary logarithm, and rounding
  moves a number up by at most the relative error \<open>pow2 (- 53)\<close> or, below the normal
  range, the absolute error \<open>pow2 (- 1075)\<close>.
\<close>

lemma pow2_powi: "pow2 k = 2 powi k"
  by (simp add: pow2_def power_int_def divide_simps)


lemma bit_length_bounds: "0 < n \<Longrightarrow> 2 ^ (bit_length n - 1) \<le> n \<and> n < 2 ^ bit_length n"
proof (induction n rule: bit_length.induct)
  case (1 n)
  show ?case
  proof (cases "n div 2 = 0")
    case True
    with 1(2) have "n = 1" by (auto simp: div_eq_0_iff)
    then show ?thesis by (simp add: bit_length.simps)
  next
    case False
    with 1 have ih: "2 ^ (bit_length (n div 2) - 1) \<le> n div 2 \<and> n div 2 < 2 ^ bit_length (n div 2)"
      by simp
    have bl: "bit_length n = Suc (bit_length (n div 2))"
      using 1(2) by (subst bit_length.simps) simp
    have pos: "0 < bit_length (n div 2)" using False by (subst bit_length.simps) simp
    from ih have "2 * 2 ^ (bit_length (n div 2) - 1) \<le> n" by linarith
    moreover have "2 * (2::nat) ^ (bit_length (n div 2) - 1) = 2 ^ bit_length (n div 2)"
      using pos by (cases "bit_length (n div 2)") simp_all
    moreover from ih have "n < 2 * 2 ^ bit_length (n div 2)" by linarith
    ultimately show ?thesis by (simp add: bl)
  qed
qed

lemma pow2_add: "pow2 (i + j) = pow2 i * pow2 j"
  by (simp add: pow2_powi power_int_add)

lemma pow2_mono: "i \<le> j \<Longrightarrow> pow2 i \<le> pow2 j"
  by (simp add: pow2_powi power_int_increasing)

lemma pow2_less_cancel: "pow2 i < pow2 j \<Longrightarrow> i < j"
  using pow2_mono [of j i] by (cases "i < j") auto

lemma pow2_exponent_le:
  assumes "0 < a"
  shows "pow2 (exponent a) \<le> a"
proof (cases "1 \<le> a")
  case True
  let ?n = "nat \<lfloor>a\<rfloor>"
  from True have n: "0 < ?n" by simp
  from bit_length_bounds [OF n] have "2 ^ (bit_length ?n - 1) \<le> ?n" by simp
  then have "(2::real) ^ (bit_length ?n - 1) \<le> of_nat ?n"
    by (metis of_nat_le_iff of_nat_numeral of_nat_power)
  also have "of_nat ?n \<le> a" using True by simp
  finally have "(2::real) ^ (bit_length ?n - 1) \<le> a" .
  moreover have "0 < bit_length ?n" using n by (subst bit_length.simps) simp
  then have "nat (int (bit_length ?n) - 1) = bit_length ?n - 1" by simp
  ultimately show ?thesis using True \<open>0 < bit_length ?n\<close> by (simp add: exponent_def pow2_def)
next
  case False
  define z where "z = \<lceil>1 / a\<rceil>"
  define m where "m = nat (z - 1)"
  from False assms have "1 < 1 / a" by simp
  then have c: "2 \<le> z" unfolding z_def by linarith
  then have m: "0 < m" by (simp add: m_def)
  from bit_length_bounds [OF m] have "m < 2 ^ bit_length m" by simp
  then have "Suc m \<le> 2 ^ bit_length m" by (rule Suc_leI)
  then have "of_nat (Suc m) \<le> (2::real) ^ bit_length m"
    by (metis of_nat_le_iff of_nat_numeral of_nat_power)
  moreover have "1 / a \<le> of_nat (Suc m)"
  proof -
    have "1 / a \<le> of_int z" unfolding z_def by simp
    also have "of_int z = (of_nat (Suc m) :: real)" using c by (simp add: m_def)
    finally show ?thesis .
  qed
  ultimately have "1 / a \<le> 2 ^ bit_length m" by linarith
  then have "1 / 2 ^ bit_length m \<le> a" using assms
    by (simp add: divide_simps mult.commute)
  moreover have "0 < bit_length m" using m by (subst bit_length.simps) simp
  moreover have "exponent a = - int (bit_length m)"
    using False by (simp add: exponent_def m_def z_def)
  ultimately show ?thesis by (simp add: pow2_def)
qed

lemma round_even_le: "of_int (round_even q) \<le> q + 1 / 2"
  by (simp add: round_even_def) linarith

lemma round64_upper:
  assumes "0 < x" and "x < pow2 1023"
  shows "\<exists>r. round64 x = Fin r \<and> 0 \<le> r \<and> r \<le> x + (x + pow2 (- 1022)) * pow2 (- 53)"
proof -
  let ?e = "exponent \<bar>x\<bar>"
  let ?k = "max ?e (- 1022) - 52"
  let ?n = "round_even (\<bar>x\<bar> / pow2 ?k)"
  from assms(1) have ax: "\<bar>x\<bar> = x" by simp
  from pow2_exponent_le [OF assms(1)] assms(2) have "pow2 (exponent x) < pow2 1023" by simp
  then have e: "exponent x < 1023" by (rule pow2_less_cancel)
  have r: "round64 x = Fin (of_int ?n * pow2 ?k)"
    using assms(1) e by (simp add: round64_def Let_def)
  have "0 \<le> x / pow2 ?k" using assms(1) pow2_pos [of ?k] by simp
  then have n0: "0 \<le> ?n" unfolding ax by (rule round_even_nonneg)
  then have low: "0 \<le> of_int ?n * pow2 ?k" using pow2_pos [of ?k] by simp
  have "of_int ?n \<le> x / pow2 ?k + 1 / 2" unfolding ax by (rule round_even_le)
  then have "of_int ?n * pow2 ?k \<le> (x / pow2 ?k + 1 / 2) * pow2 ?k"
    using pow2_pos [of ?k] by (simp add: mult_right_mono)
  also have "\<dots> = x + pow2 ?k / 2" using pow2_pos [of ?k] by (simp add: field_simps)
  finally have up: "of_int ?n * pow2 ?k \<le> x + pow2 ?k / 2" .
  have "pow2 ?k / 2 = pow2 (max (exponent x) (- 1022)) * pow2 (- 53)"
  proof -
    have "?k = max (exponent x) (- 1022) + (- 52)" by (simp add: ax)
    then have "pow2 ?k = pow2 (max (exponent x) (- 1022)) * pow2 (- 52)"
      by (simp only: pow2_add)
    moreover have "pow2 (- 52) / 2 = pow2 (- 53)" by (simp add: pow2_def)
    ultimately show ?thesis by simp
  qed
  moreover have "pow2 (max (exponent x) (- 1022)) \<le> x + pow2 (- 1022)"
  proof (cases "exponent x \<le> - 1022")
    case True
    then have "max (exponent x) (- 1022) = - 1022" by simp
    with assms(1) show ?thesis by simp
  next
    case False
    then have "max (exponent x) (- 1022) = exponent x" by simp
    with pow2_exponent_le [OF assms(1)] pow2_pos [of "- 1022"] show ?thesis by simp
  qed
  ultimately have "pow2 ?k / 2 \<le> (x + pow2 (- 1022)) * pow2 (- 53)"
    using pow2_pos [of "- 53"] by (simp add: mult_right_mono)
  with up have "of_int ?n * pow2 ?k \<le> x + (x + pow2 (- 1022)) * pow2 (- 53)" by linarith
  with r low show ?thesis by blast
qed

section \<open>The reverse nuclide index\<close>

text \<open>
  After the first \<open>k\<close> iterations the entry of a nuclide holds the last slot among the
  first \<open>k\<close> that names it, and an entry that no slot names holds its initial value.
\<close>

lemma init_index_loop:
  assumes "\<forall>x \<in> set nucs. 0 \<le> x \<and> x < int (length idx0)" and "k \<le> length nucs"
  shows "\<exists>idx. for_loop k (init_index_body nucs) idx0 = Inr idx \<and> length idx = length idx0
           \<and> (\<forall>i < k. (\<forall>i'. i < i' \<and> i' < k \<longrightarrow> nucs ! i' \<noteq> nucs ! i)
                 \<longrightarrow> idx ! nat (nucs ! i) = int i)
           \<and> (\<forall>g < length idx0. (\<forall>i < k. nucs ! i \<noteq> int g) \<longrightarrow> idx ! g = idx0 ! g)"
  using assms(2)
proof (induction k)
  case 0
  then show ?case by simp
next
  case (Suc k)
  then obtain idx where loop: "for_loop k (init_index_body nucs) idx0 = Inr idx"
    and len: "length idx = length idx0"
    and last: "\<forall>i < k. (\<forall>i'. i < i' \<and> i' < k \<longrightarrow> nucs ! i' \<noteq> nucs ! i)
                 \<longrightarrow> idx ! nat (nucs ! i) = int i"
    and absent: "\<forall>g < length idx0. (\<forall>i < k. nucs ! i \<noteq> int g) \<longrightarrow> idx ! g = idx0 ! g"
    by auto
  have in_range: "0 \<le> nucs ! i \<and> nucs ! i < int (length idx0)" if "i \<le> k" for i
    using that Suc.prems assms(1) by (simp add: Suc_le_eq)
  let ?idx' = "idx[nat (nucs ! k) := int k]"
  have step: "for_loop (Suc k) (init_index_body nucs) idx0 = Inr ?idx'"
    using loop in_range [of k] len by (simp add: init_index_body_def vec_set_def)
  have last': "?idx' ! nat (nucs ! i) = int i"
    if i: "i < Suc k" and later: "\<forall>i'. i < i' \<and> i' < Suc k \<longrightarrow> nucs ! i' \<noteq> nucs ! i" for i
  proof (cases "i = k")
    case True
    have "nat (nucs ! k) < length idx" using in_range [of k] len by (simp add: nat_less_iff)
    with True show ?thesis by simp
  next
    case False
    with i have ik: "i < k" by simp
    with later have "nucs ! k \<noteq> nucs ! i" by simp
    then have "nat (nucs ! k) \<noteq> nat (nucs ! i)"
      using in_range [of k] in_range [of i] ik by (simp add: nat_eq_iff)
    moreover from last ik later have "idx ! nat (nucs ! i) = int i" by simp
    ultimately show ?thesis by simp
  qed
  have absent': "?idx' ! g = idx0 ! g"
    if g: "g < length idx0" and no: "\<forall>i < Suc k. nucs ! i \<noteq> int g" for g
  proof -
    from no have "nucs ! k \<noteq> int g" by simp
    then have "nat (nucs ! k) \<noteq> g" using in_range [of k] by auto
    moreover from absent g no have "idx ! g = idx0 ! g" by simp
    ultimately show ?thesis by simp
  qed
  from step len last' absent' show ?case by simp
qed

text \<open>
  Claim C6, as amended.  When every entry of \<^verbatim>\<open>nuclide_\<close> is an index of the global
  table of size \<open>n\<close>, \<^verbatim>\<open>init_nuclide_index\<close> builds a table of length \<open>n\<close> in which
  \<^verbatim>\<open>mat_nuclide_index_[nuclide_[k]] == k\<close> holds for every slot \<open>k\<close> whose nuclide does not
  occur again in a later slot, and \<^verbatim>\<open>mat_nuclide_index_[g] == -1\<close> for every global id \<open>g\<close>
  that is not in \<^verbatim>\<open>nuclide_\<close>.  A nuclide listed in several slots is indexed by the last
  of them.
\<close>

theorem init_nuclide_index_last_slot:
  assumes "\<forall>x \<in> set (nuclide m). 0 \<le> x \<and> x < int n"
  shows "\<exists>idx. init_nuclide_index n m = Inr (m\<lparr>mat_nuclide_index := idx\<rparr>) \<and> length idx = n
           \<and> (\<forall>k < length (nuclide m).
                 (\<forall>k'. k < k' \<and> k' < length (nuclide m) \<longrightarrow> nuclide m ! k' \<noteq> nuclide m ! k)
                 \<longrightarrow> idx ! nat (nuclide m ! k) = int k)
           \<and> (\<forall>g < n. int g \<notin> set (nuclide m) \<longrightarrow> idx ! g = - 1)"
proof -
  let ?nucs = "nuclide m"
  from assms have "\<forall>x \<in> set ?nucs. 0 \<le> x \<and> x < int (length (replicate n C_NONE))" by simp
  from init_index_loop [OF this order_refl]
  obtain idx where loop: "for_loop (length ?nucs) (init_index_body ?nucs) (replicate n C_NONE) = Inr idx"
    and len: "length idx = n"
    and last: "\<forall>i < length ?nucs. (\<forall>i'. i < i' \<and> i' < length ?nucs \<longrightarrow> ?nucs ! i' \<noteq> ?nucs ! i)
                 \<longrightarrow> idx ! nat (?nucs ! i) = int i"
    and absent: "\<forall>g < n. (\<forall>i < length ?nucs. ?nucs ! i \<noteq> int g) \<longrightarrow> idx ! g = replicate n C_NONE ! g"
    by auto
  have absent': "idx ! g = - 1" if g: "g < n" and notin: "int g \<notin> set ?nucs" for g
  proof -
    from notin have "\<forall>i < length ?nucs. ?nucs ! i \<noteq> int g" by (metis nth_mem)
    with absent g have "idx ! g = replicate n C_NONE ! g" by simp
    with g show ?thesis by (simp add: C_NONE_def)
  qed
  from loop have "init_nuclide_index n m = Inr (m\<lparr>mat_nuclide_index := idx\<rparr>)"
    by (simp add: init_nuclide_index_def)
  with len last absent' show ?thesis by blast
qed

theorem init_nuclide_index_last_slot_witness:
  "\<exists>idx. init_nuclide_index 2 steam = Inr (steam\<lparr>mat_nuclide_index := idx\<rparr>) \<and> length idx = 2
     \<and> idx ! 0 = 0 \<and> idx ! 1 = 1"
proof -
  have r: "\<forall>x \<in> set (nuclide steam). 0 \<le> x \<and> x < int 2" by (simp add: steam_def)
  from init_nuclide_index_last_slot [OF r]
  obtain idx where idx: "init_nuclide_index 2 steam = Inr (steam\<lparr>mat_nuclide_index := idx\<rparr>)"
    "length idx = 2"
    and last: "\<And>k. k < length (nuclide steam) \<Longrightarrow>
        (\<forall>k'. k < k' \<and> k' < length (nuclide steam) \<longrightarrow> nuclide steam ! k' \<noteq> nuclide steam ! k)
        \<Longrightarrow> idx ! nat (nuclide steam ! k) = int k"
    by blast
  have n: "nuclide steam = [0, 1]" by (simp add: steam_def)
  have "idx ! nat (nuclide steam ! 0) = int 0"
    by (rule last) (auto simp: n less_Suc_eq)
  moreover have "idx ! nat (nuclide steam ! 1) = int 1"
    by (rule last) (auto simp: n)
  ultimately show ?thesis using idx by (intro exI [of _ idx]) (simp add: n)
qed

text \<open>
  The claim as stated fails for \<open>water\<close>, whose slots 0 and 1 hold the same nuclide: the
  table is \<open>[1, 2]\<close>, so the entry of the nuclide of slot 0 is 1 and not 0.
\<close>

theorem init_nuclide_index_counterexample:
  "init_nuclide_index 2 water = Inr (water\<lparr>mat_nuclide_index := [1, 2]\<rparr>)
   \<and> [1, 2 :: int] ! nat (nuclide water ! 0) \<noteq> 0"
  by (simp add: init_nuclide_index_def init_index_body_def vec_set_def water_def C_NONE_def
      numeral_3_eq_3 numeral_2_eq_2)

section \<open>Material ids\<close>

text \<open>
  Claim C10, as amended.  \<^verbatim>\<open>openmc_material_set_id(index, new_id)\<close> with a valid index
  returns 0 and maps \<open>new_id\<close> to the material, overwriting the entry \<open>new_id\<close> had, if
  any; the entry of every other id is left as it was.  So when the map held the
  material's old id before the call, it still does afterwards:
  \<^verbatim>\<open>openmc_get_material_index\<close> on the old id succeeds and returns the same index.
\<close>

theorem set_id_keeps_old_id:
  assumes "index_ok s index"
    and "material_map s (mat_id (materials s ! nat (index - 1))) = Some (index - 1)"
  shows "fst (openmc_material_set_id index new_id s) = OK
     \<and> material_map (snd (openmc_material_set_id index new_id s)) new_id = Some (index - 1)
     \<and> (\<forall>k. k \<noteq> new_id \<longrightarrow>
           material_map (snd (openmc_material_set_id index new_id s)) k = material_map s k)
     \<and> openmc_get_material_index (snd (openmc_material_set_id index new_id s))
           (mat_id (materials s ! nat (index - 1))) = (OK, Some index)"
  using assms by (simp add: openmc_material_set_id_def openmc_get_material_index_def)

theorem set_id_keeps_old_id_witness:
  "index_ok registry 1
   \<and> mat_id (materials registry ! nat (1 - 1)) = 10
   \<and> mat_id (materials (snd (openmc_material_set_id 1 30 registry)) ! 0) = 30
   \<and> openmc_get_material_index (snd (openmc_material_set_id 1 30 registry)) 10 = (OK, Some 1)
   \<and> openmc_get_material_index (snd (openmc_material_set_id 1 30 registry)) 30 = (OK, Some 1)
   \<and> openmc_get_material_index (snd (openmc_material_set_id 1 30 registry)) 20 = (OK, Some 2)"
proof -
  have ok: "index_ok registry 1" by (simp add: index_ok_def registry_def)
  have old: "material_map registry (mat_id (materials registry ! nat (1 - 1))) = Some (1 - 1)"
    by (simp add: registry_def water_def)
  have id10: "mat_id (materials registry ! nat (1 - 1)) = 10" by (simp add: registry_def water_def)
  from set_id_keeps_old_id [OF ok old, of 30] id10
  have "openmc_get_material_index (snd (openmc_material_set_id 1 30 registry)) 10 = (OK, Some 1)"
    by simp
  then show ?thesis using ok id10
    by (simp add: openmc_material_set_id_def openmc_get_material_index_def registry_def)
qed

text \<open>
  The claim as stated fails when \<open>new_id\<close> is the id of another material.  In
  \<open>registry\<close> the id 20 maps to the second material; after
  \<^verbatim>\<open>openmc_material_set_id(1, 20)\<close> it maps to the first, and
  \<^verbatim>\<open>openmc_get_material_index(20)\<close> returns 1 where it returned 2.
\<close>

theorem set_id_keeps_old_id_counterexample:
  "material_map registry 20 = Some 1
   \<and> openmc_get_material_index registry 20 = (OK, Some 2)
   \<and> fst (openmc_material_set_id 1 20 registry) = OK
   \<and> material_map (snd (openmc_material_set_id 1 20 registry)) 20 = Some 0
   \<and> openmc_get_material_index (snd (openmc_material_set_id 1 20 registry)) 20 = (OK, Some 1)"
  by (simp add: openmc_material_set_id_def openmc_get_material_index_def index_ok_def
      registry_def)

section \<open>Adding a nuclide that is already present\<close>

text \<open>
  The search returns at the first slot whose nuclide has the name; the slots before it
  are read and skipped.
\<close>

lemma scan_slots_found:
  assumes "\<forall>j \<in> set pre. \<exists>nuc. vec_at nucs (nuclide m ! j) = Inr nuc \<and> nuc_name nuc \<noteq> name"
    and "vec_at nucs (nuclide m ! i) = Inr nuc" and "nuc_name nuc = name"
  shows "scan_slots K nucs name dens m (pre @ i # post) =
           (case update_slot K nuc i dens m of Inl e \<Rightarrow> Inl e | Inr m' \<Rightarrow> Inr (Some m'))"
  using assms by (induction pre) auto

text \<open>
  Claim C9.  Let \<open>i\<close> be the first slot of the material whose nuclide has the given name.
  Then \<^verbatim>\<open>openmc_material_add_nuclide\<close> returns 0; the list \<^verbatim>\<open>nuclide_\<close> is unchanged, entry
  \<open>i\<close> of \<^verbatim>\<open>atom_density_\<close> becomes the given density, \<^verbatim>\<open>density_\<close> grows by the difference
  between the given density and the old entry, and \<^verbatim>\<open>density_gpcc_\<close> by that difference
  times \<^verbatim>\<open>awr * MASS_NEUTRON / N_AVOGADRO\<close>.  Nothing else changes.
\<close>

theorem add_nuclide_existing:
  assumes "index_ok s index"
    and "m = materials s ! nat (index - 1)"
    and "length (atom_density m) = length (nuclide m)"
    and "\<forall>x \<in> set (nuclide m). 0 \<le> x \<and> x < int (length (nuclides s))"
    and "i < length (nuclide m)"
    and "nuc_name (nuclides s ! nat (nuclide m ! i)) = name"
    and "\<forall>j < i. nuc_name (nuclides s ! nat (nuclide m ! j)) \<noteq> name"
  shows "openmc_material_add_nuclide K load index name dens s =
           Inr (OK, s\<lparr>materials := (materials s)[nat (index - 1) :=
                  m\<lparr>density := dadd (density m) (dsub dens (atom_density m ! i)),
                    density_gpcc := dadd (density_gpcc m)
                      (ddiv (dmul (dmul (dsub dens (atom_density m ! i))
                                        (awr (nuclides s ! nat (nuclide m ! i))))
                                  (MASS_NEUTRON K)) (N_AVOGADRO K)),
                    atom_density := (atom_density m)[i := dens]\<rparr>]\<rparr>)"
proof -
  have at: "vec_at (nuclides s) (nuclide m ! j) = Inr (nuclides s ! nat (nuclide m ! j))"
    if "j < length (nuclide m)" for j
    using that assms(4) by (simp add: vec_at_def)
  have split: "[0..<length (nuclide m)] = [0..<i] @ i # [Suc i..<length (nuclide m)]"
  proof -
    have "[0..<length (nuclide m)] = [0..<i] @ [i..<length (nuclide m)]"
      using assms(5) upt_add_eq_append [of 0 i "length (nuclide m) - i"] by simp
    then show ?thesis using assms(5) by (simp add: upt_conv_Cons)
  qed
  have pre: "\<forall>j \<in> set [0..<i]. \<exists>nuc. vec_at (nuclides s) (nuclide m ! j) = Inr nuc
               \<and> nuc_name nuc \<noteq> name"
    using at assms(5,7) by simp
  have upd: "update_slot K nuc i dens m =
               Inr (m\<lparr>density := dadd (density m) (dsub dens (atom_density m ! i)),
                      density_gpcc := dadd (density_gpcc m)
                        (ddiv (dmul (dmul (dsub dens (atom_density m ! i)) (awr nuc))
                                    (MASS_NEUTRON K)) (N_AVOGADRO K)),
                      atom_density := (atom_density m)[i := dens]\<rparr>)" for nuc
    using assms(3,5) by (simp add: update_slot_def vec_at_def)
  have "scan_slots K (nuclides s) name dens m [0..<length (nuclide m)] =
          (case update_slot K (nuclides s ! nat (nuclide m ! i)) i dens m of
             Inl e \<Rightarrow> Inl e | Inr m' \<Rightarrow> Inr (Some m'))"
    unfolding split by (rule scan_slots_found [OF pre at [OF assms(5)] assms(6)])
  then show ?thesis
    using assms(1) assms(2) [symmetric] by (simp add: openmc_material_add_nuclide_def upd)
qed

theorem add_nuclide_existing_witness:
  "openmc_material_add_nuclide K0 (\<lambda>name s. (0, s)) 1 ''O16'' (Fin 4) registry =
     Inr (OK, registry\<lparr>materials := [water\<lparr>density := dadd (Fin 5) (dsub (Fin 4) (Fin 1)),
         density_gpcc := dadd (Fin 20)
           (ddiv (dmul (dmul (dsub (Fin 4) (Fin 1)) (Fin 16)) (MASS_NEUTRON K0)) (N_AVOGADRO K0)),
         atom_density := [Fin 2, Fin 2, Fin 4]\<rparr>, steam]\<rparr>)"
proof -
  have a1: "index_ok registry 1" by (simp add: index_ok_def registry_def)
  have a2: "water = materials registry ! nat (1 - 1)" by (simp add: registry_def)
  have a3: "length (atom_density water) = length (nuclide water)" by (simp add: water_def)
  have a4: "\<forall>x \<in> set (nuclide water). 0 \<le> x \<and> x < int (length (nuclides registry))"
    by (simp add: water_def registry_def)
  have a5: "2 < length (nuclide water)" by (simp add: water_def)
  have a6: "nuc_name (nuclides registry ! nat (nuclide water ! 2)) = ''O16''"
    by (simp add: water_def registry_def O16_def)
  have a7: "\<forall>j < 2. nuc_name (nuclides registry ! nat (nuclide water ! j)) \<noteq> ''O16''"
    by (auto simp: water_def registry_def H1_def less_Suc_eq numeral_2_eq_2)
  show ?thesis
    using add_nuclide_existing [OF a1 a2 a3 a4 a5 a6 a7, of K0 "\<lambda>name s. (0, s)" "Fin 4"]
    by (simp add: water_def registry_def O16_def)
qed

section \<open>Setting the density twice\<close>






section \<open>The macroscopic accumulator\<close>

text \<open>A property that every iteration preserves holds after the loop.\<close>

lemma for_loop_invariant:
  assumes "for_loop n body s = Inr s'" and "P s"
    and "\<And>i t t'. P t \<Longrightarrow> body i t = Inr t' \<Longrightarrow> P t'"
  shows "P s'"
  using assms(1)
proof (induction n arbitrary: s')
  case 0
  with assms(2) show ?case by simp
next
  case (Suc n)
  then obtain t where "for_loop n body s = Inr t" "body n t = Inr s'"
    by (auto split: sum.splits)
  with Suc.IH assms(3) show ?case by blast
qed

text \<open>
  Neither loop body writes \<^verbatim>\<open>photon_prod\<close>, and the neutron body writes none of the four
  photon partials.
\<close>

lemma refresh_nuclide_macro [simp]:
  "material_xs (refresh_nuclide L p g i_nuclide i_sab sf sim) = material_xs sim"
  by (simp add: refresh_nuclide_def)

lemma refresh_element_macro [simp]:
  "material_xs (refresh_element L p i_element sim) = material_xs sim"
  by (simp add: refresh_element_def)

lemma neutron_body_keeps:
  assumes "neutron_body L m p g i (j, cs, sim) = Inr (j', cs', sim')"
  shows "photon_prod (material_xs sim') = photon_prod (material_xs sim)
       \<and> coherent (material_xs sim') = coherent (material_xs sim)
       \<and> incoherent (material_xs sim') = incoherent (material_xs sim)
       \<and> photoelectric (material_xs sim') = photoelectric (material_xs sim)
       \<and> pair_production (material_xs sim') = pair_production (material_xs sim)"
  using assms
  by (auto simp: neutron_body_def Let_def add_neutron_def split: sum.splits prod.splits)

lemma photon_body_keeps:
  assumes "photon_body L m p i sim = Inr sim'"
  shows "photon_prod (material_xs sim') = photon_prod (material_xs sim)"
  using assms
  by (auto simp: photon_body_def Let_def add_photon_def split: sum.splits)

lemma calculate_neutron_xs_keeps:
  assumes "calculate_neutron_xs L m p sim = Inr sim'"
  shows "keeps_photon_fields (material_xs sim) (0, False, sim')"
proof -
  from assms obtain j cs where
    loop: "for_loop (length (nuclide m)) (neutron_body L m p (log_grid_index L (E p)))
             (0, thermal_tables m \<noteq> [], sim) = Inr (j, cs, sim')"
    by (auto simp: calculate_neutron_xs_def neutron_loop_def split: sum.splits)
  have "keeps_photon_fields (material_xs sim) (j, cs, sim')"
  proof (rule for_loop_invariant [OF loop])
    show "keeps_photon_fields (material_xs sim) (0, thermal_tables m \<noteq> [], sim)"
      by (simp add: keeps_photon_fields_def)
  next
    fix i t t'
    assume "keeps_photon_fields (material_xs sim) t"
      and "neutron_body L m p (log_grid_index L (E p)) i t = Inr t'"
    then show "keeps_photon_fields (material_xs sim) t'"
      by (cases t, cases t') (auto simp: keeps_photon_fields_def dest!: neutron_body_keeps)
  qed
  then show ?thesis by (simp add: keeps_photon_fields_def)
qed

lemma calculate_photon_xs_keeps:
  assumes "calculate_photon_xs L m p sim = Inr sim'"
  shows "photon_prod (material_xs sim') = photon_prod (material_xs sim)"
proof -
  let ?P = "\<lambda>t. photon_prod (material_xs t) = photon_prod (material_xs sim)"
  from assms have "?P sim'"
    unfolding calculate_photon_xs_def
    by (rule for_loop_invariant [where P = ?P]) (auto dest: photon_body_keeps)
  then show ?thesis .
qed

text \<open>
  So \<^verbatim>\<open>Material::calculate_xs\<close> never writes \<^verbatim>\<open>photon_prod\<close>, and for a particle other than
  a photon it writes none of the four photon partials: they leave with the value they
  had on entry.
\<close>

lemma calculate_xs_keeps:
  assumes "calculate_xs L m p sim = Inr sim'"
  shows "photon_prod (material_xs sim') = photon_prod (material_xs sim)"
    and "ptype p \<noteq> photon \<Longrightarrow>
           coherent (material_xs sim') = coherent (material_xs sim)
           \<and> incoherent (material_xs sim') = incoherent (material_xs sim)
           \<and> photoelectric (material_xs sim') = photoelectric (material_xs sim)
           \<and> pair_production (material_xs sim') = pair_production (material_xs sim)"
proof -
  show "photon_prod (material_xs sim') = photon_prod (material_xs sim)"
    using assms
    by (auto simp: calculate_xs_def Let_def keeps_photon_fields_def split: if_splits
             dest!: calculate_neutron_xs_keeps calculate_photon_xs_keeps)
next
  assume "ptype p \<noteq> photon"
  with assms have "keeps_photon_fields (material_xs sim) (0, False, sim')"
    by (auto simp: calculate_xs_def Let_def keeps_photon_fields_def split: if_splits
             dest!: calculate_neutron_xs_keeps)
  then show "coherent (material_xs sim') = coherent (material_xs sim)
           \<and> incoherent (material_xs sim') = incoherent (material_xs sim)
           \<and> photoelectric (material_xs sim') = photoelectric (material_xs sim)
           \<and> pair_production (material_xs sim') = pair_production (material_xs sim)"
    by (simp add: keeps_photon_fields_def)
qed

text \<open>
  Claim C5 fails on the code.  The accumulator of \<open>sim0\<close> enters with the four neutron
  fields at 100, \<^verbatim>\<open>photon_prod\<close> at 7 and the four photon partials at 5.  For a neutron
  in \<open>steam\<close> the neutron fields leave as the sums over the two nuclides, while
  \<^verbatim>\<open>photon_prod\<close> and the partials leave as they came.  For a photon in the same material
  (with the elements 0 and 1) the total and the partials leave as the sums over the two
  elements, and \<^verbatim>\<open>photon_prod\<close> again leaves as it came.
\<close>

theorem calculate_xs_stale_fields:
  "material_xs sim0 =
     \<lparr>total = Fin 100, absorption = Fin 100, fission = Fin 100, nu_fission = Fin 100,
      photon_prod = Fin 7, coherent = Fin 5, incoherent = Fin 5, photoelectric = Fin 5,
      pair_production = Fin 5\<rparr>
   \<and> map_sum id material_xs (calculate_xs L0 steam neutron1 sim0) =
     Inr \<lparr>total = Fin 9, absorption = Fin 3, fission = Fin 0, nu_fission = Fin 0,
          photon_prod = Fin 7, coherent = Fin 5, incoherent = Fin 5, photoelectric = Fin 5,
          pair_production = Fin 5\<rparr>
   \<and> map_sum id material_xs
       (calculate_xs L0 (steam\<lparr>element := [0, 1]\<rparr>) (neutron1\<lparr>ptype := photon\<rparr>) sim0) =
     Inr \<lparr>total = Fin 12, absorption = Fin 0, fission = Fin 0, nu_fission = Fin 0,
          photon_prod = Fin 7, coherent = Fin 3, incoherent = Fin 3, photoelectric = Fin 3,
          pair_production = Fin 3\<rparr>"
  by (simp add: calculate_xs_def calculate_neutron_xs_def neutron_loop_def neutron_body_def
      calculate_photon_xs_def photon_body_def refresh_element_def add_photon_def
      sab_lookup_def refresh_nuclide_def cache_differs_def add_neutron_def vec_at_def
      dne_def deq_def steam_def neutron1_def sim0_def L0_def micro0_def photon0_def C_NONE_def
      round64_eval)

section \<open>Refreshing the microscopic cache\<close>

text \<open>On finite values the C++ operator \<^verbatim>\<open>!=\<close> is plain inequality.\<close>

lemma dne_Fin [simp]: "dne (Fin a) (Fin b) \<longleftrightarrow> a \<noteq> b"
  by (simp add: dne_def deq_def)

text \<open>A loop that ends without error has passed every shorter run without error.\<close>

lemma for_loop_prefix:
  assumes "for_loop n body s = Inr s'" and "k \<le> n"
  shows "\<exists>t. for_loop k body s = Inr t"
  using assms
proof (induction n arbitrary: s')
  case 0
  then show ?case by simp
next
  case (Suc n)
  show ?case
  proof (cases "k = Suc n")
    case True
    with Suc.prems(1) show ?thesis by blast
  next
    case False
    with Suc.prems(2) have "k \<le> n" by simp
    moreover from Suc.prems(1) obtain t where "for_loop n body s = Inr t"
      by (auto split: sum.splits)
    ultimately show ?thesis using Suc.IH by blast
  qed
qed

text \<open>
  One iteration of the neutron loop: the refresh is called exactly when the guard holds
  on the cache entry as the iterations before have left it.
\<close>

lemma neutron_body_refresh:
  assumes "neutron_body L m p (log_grid_index L (E p)) k (j, cs, simk) = Inr (j2, cs2, simk')"
    and "sab_lookup L m p k j cs = Inr ((i_sab, sf), j', cs')"
  shows "(xs_calls simk' = xs_calls simk
             @ [NuclideCall (nuclide m ! k) i_sab (E p) (log_grid_index L (E p)) (sqrtkT p) sf])
          = cache_differs p i_sab sf (micro_xs simk (nuclide m ! k))"
    and "cache_differs p i_sab sf (micro_xs simk (nuclide m ! k)) \<Longrightarrow>
           micro_xs simk' = nuclide_calculate_xs L (nuclide m ! k) i_sab (E p)
                              (log_grid_index L (E p)) (sqrtkT p) sf (micro_xs simk)"
    and "\<not> cache_differs p i_sab sf (micro_xs simk (nuclide m ! k)) \<Longrightarrow>
           xs_calls simk' = xs_calls simk \<and> micro_xs simk' = micro_xs simk
           \<and> material_xs simk' =
               add_neutron (atom_density m ! k) (micro_xs simk (nuclide m ! k)) (material_xs simk)"
    and "j2 = j' \<and> cs2 = cs'"
proof -
  let ?r = "refresh_nuclide L p (log_grid_index L (E p)) (nuclide m ! k) i_sab sf simk"
  from assms obtain a where a: "vec_at (atom_density m) (int k) = Inr a"
    and res: "simk' = ?r\<lparr>material_xs := add_neutron a (micro_xs ?r (nuclide m ! k)) (material_xs ?r)\<rparr>"
    and cur: "j2 = j' \<and> cs2 = cs'"
    by (auto simp: neutron_body_def Let_def split: sum.splits)
  from a have a': "a = atom_density m ! k"
    by (auto simp: vec_at_def split: if_splits)
  show "(xs_calls simk' = xs_calls simk
             @ [NuclideCall (nuclide m ! k) i_sab (E p) (log_grid_index L (E p)) (sqrtkT p) sf])
          = cache_differs p i_sab sf (micro_xs simk (nuclide m ! k))"
    unfolding res by (simp add: refresh_nuclide_def)
  show "cache_differs p i_sab sf (micro_xs simk (nuclide m ! k)) \<Longrightarrow>
           micro_xs simk' = nuclide_calculate_xs L (nuclide m ! k) i_sab (E p)
                              (log_grid_index L (E p)) (sqrtkT p) sf (micro_xs simk)"
    unfolding res by (simp add: refresh_nuclide_def)
  show "\<not> cache_differs p i_sab sf (micro_xs simk (nuclide m ! k)) \<Longrightarrow>
           xs_calls simk' = xs_calls simk \<and> micro_xs simk' = micro_xs simk
           \<and> material_xs simk' =
               add_neutron (atom_density m ! k) (micro_xs simk (nuclide m ! k)) (material_xs simk)"
    unfolding res a' by (simp add: refresh_nuclide_def)
  show "j2 = j' \<and> cs2 = cs'" by (rule cur)
qed

text \<open>
  Claim C3.  Let \<^verbatim>\<open>Material::calculate_xs\<close> return for a neutron, with the final state
  \<open>sim'\<close>.  Its neutron branch runs the loop over all local slots, starting from the
  state in which the four neutron fields of the accumulator are zero, and \<open>sim'\<close> is the
  state after the last slot.  For every local slot \<open>k\<close>, with \<open>simk\<close> the state after the
  slots before it, \<open>(i_sab, sf)\<close> the pair bound for the slot and \<open>simk'\<close> the state after
  it: the refresh of the nuclide of the slot is called if and only if one of \<open>E\<close>,
  \<open>sqrtkT\<close>, \<open>i_sab\<close>, \<open>sab_frac\<close> differs (in the sense of \<^verbatim>\<open>!=\<close>) from the value stored
  in the cache entry of the nuclide.  When one differs the cache becomes what the
  refresh returns; when none differs no call is made, the cache is unchanged, and the
  cached values of the entry are what is added to the accumulator.
\<close>

theorem refresh_iff_cache_differs:
  assumes "ptype p = neutron"
    and "calculate_xs L m p sim = Inr sim'"
    and "k < length (nuclide m)"
  shows "\<exists>j cs simk i_sab sf j' cs' simk' jn csn.
       neutron_loop L m p k
           (sim\<lparr>material_xs := (material_xs sim)\<lparr>total := Fin 0, absorption := Fin 0,
                                    fission := Fin 0, nu_fission := Fin 0\<rparr>\<rparr>) = Inr (j, cs, simk)
     \<and> sab_lookup L m p k j cs = Inr ((i_sab, sf), j', cs')
     \<and> neutron_loop L m p (Suc k)
           (sim\<lparr>material_xs := (material_xs sim)\<lparr>total := Fin 0, absorption := Fin 0,
                                    fission := Fin 0, nu_fission := Fin 0\<rparr>\<rparr>) = Inr (j', cs', simk')
     \<and> neutron_loop L m p (length (nuclide m))
           (sim\<lparr>material_xs := (material_xs sim)\<lparr>total := Fin 0, absorption := Fin 0,
                                    fission := Fin 0, nu_fission := Fin 0\<rparr>\<rparr>) = Inr (jn, csn, sim')
     \<and> ((xs_calls simk' = xs_calls simk
             @ [NuclideCall (nuclide m ! k) i_sab (E p) (log_grid_index L (E p)) (sqrtkT p) sf])
          = (dne (E p) (NuclideMicroXS.last_E (micro_xs simk (nuclide m ! k)))
             \<or> dne (sqrtkT p) (NuclideMicroXS.last_sqrtkT (micro_xs simk (nuclide m ! k)))
             \<or> i_sab \<noteq> index_sab (micro_xs simk (nuclide m ! k))
             \<or> dne sf (sab_frac (micro_xs simk (nuclide m ! k)))))
     \<and> (dne (E p) (NuclideMicroXS.last_E (micro_xs simk (nuclide m ! k)))
             \<or> dne (sqrtkT p) (NuclideMicroXS.last_sqrtkT (micro_xs simk (nuclide m ! k)))
             \<or> i_sab \<noteq> index_sab (micro_xs simk (nuclide m ! k))
             \<or> dne sf (sab_frac (micro_xs simk (nuclide m ! k)))
         \<longrightarrow> micro_xs simk' = nuclide_calculate_xs L (nuclide m ! k) i_sab (E p)
                                  (log_grid_index L (E p)) (sqrtkT p) sf (micro_xs simk))
     \<and> (\<not> (dne (E p) (NuclideMicroXS.last_E (micro_xs simk (nuclide m ! k)))
             \<or> dne (sqrtkT p) (NuclideMicroXS.last_sqrtkT (micro_xs simk (nuclide m ! k)))
             \<or> i_sab \<noteq> index_sab (micro_xs simk (nuclide m ! k))
             \<or> dne sf (sab_frac (micro_xs simk (nuclide m ! k))))
         \<longrightarrow> xs_calls simk' = xs_calls simk \<and> micro_xs simk' = micro_xs simk
             \<and> material_xs simk' =
                 add_neutron (atom_density m ! k) (micro_xs simk (nuclide m ! k)) (material_xs simk))"
proof -
  let ?z = "sim\<lparr>material_xs := (material_xs sim)\<lparr>total := Fin 0, absorption := Fin 0,
                                   fission := Fin 0, nu_fission := Fin 0\<rparr>\<rparr>"
  let ?body = "neutron_body L m p (log_grid_index L (E p))"
  let ?s0 = "(0 :: nat, thermal_tables m \<noteq> [], ?z)"
  from assms(1,2) have "calculate_neutron_xs L m p ?z = Inr sim'"
    by (simp add: calculate_xs_def Let_def)
  then obtain jn csn where full: "neutron_loop L m p (length (nuclide m)) ?z = Inr (jn, csn, sim')"
    by (auto simp: calculate_neutron_xs_def split: sum.splits)
  then have loop: "for_loop (length (nuclide m)) ?body ?s0 = Inr (jn, csn, sim')"
    by (simp add: neutron_loop_def)
  from assms(3) have "Suc k \<le> length (nuclide m)" by simp
  from for_loop_prefix [OF loop this] obtain t' where t': "for_loop (Suc k) ?body ?s0 = Inr t'" ..
  then obtain t where t: "for_loop k ?body ?s0 = Inr t" and step: "?body k t = Inr t'"
    by (auto split: sum.splits)
  obtain j cs simk where [simp]: "t = (j, cs, simk)" by (cases t)
  obtain j2 cs2 simk' where [simp]: "t' = (j2, cs2, simk')" by (cases t')
  from step obtain i_sab sf j' cs' where sab: "sab_lookup L m p k j cs = Inr ((i_sab, sf), j', cs')"
    by (auto simp: neutron_body_def split: sum.splits)
  from step have body: "?body k (j, cs, simk) = Inr (j2, cs2, simk')" by simp
  note r = neutron_body_refresh [OF body sab]
  from r(4) have [simp]: "j2 = j'" "cs2 = cs'" by simp_all
  have pre: "neutron_loop L m p k ?z = Inr (j, cs, simk)"
    using t by (simp add: neutron_loop_def)
  have post: "neutron_loop L m p (Suc k) ?z = Inr (j', cs', simk')"
    using t' by (simp add: neutron_loop_def del: for_loop.simps)
  show ?thesis
    using pre sab post full r(1,2,3) unfolding cache_differs_def by blast
qed

text \<open>
  The neutron in \<open>light_water\<close>: the entry of the first nuclide holds the energy 0, the
  neutron has the energy 1, and the refresh is called for the first slot.
\<close>

theorem refresh_iff_cache_differs_witness:
  "\<exists>simk' sim'.
       calculate_xs L0 light_water neutron1 sim0 = Inr sim'
     \<and> neutron_loop L0 light_water neutron1 (Suc 0)
           (sim0\<lparr>material_xs := (material_xs sim0)\<lparr>total := Fin 0, absorption := Fin 0,
                                     fission := Fin 0, nu_fission := Fin 0\<rparr>\<rparr>) = Inr (1, False, simk')
     \<and> xs_calls simk' = [NuclideCall 0 0 (Fin 1) 0 (Fin (1 / 8)) (Fin (7 / 8))]"
proof -
  let ?z = "sim0\<lparr>material_xs := (material_xs sim0)\<lparr>total := Fin 0, absorption := Fin 0,
                                    fission := Fin 0, nu_fission := Fin 0\<rparr>\<rparr>"
  have n: "ptype neutron1 = neutron" by (simp add: neutron1_def)
  have k: "0 < length (nuclide light_water)" by (simp add: light_water_def steam_def)
  obtain sim' where ret: "calculate_xs L0 light_water neutron1 sim0 = Inr sim'"
    by (simp add: calculate_xs_def calculate_neutron_xs_def neutron_loop_def neutron_body_def
        sab_lookup_def vec_at_def light_water_def steam_def neutron1_def L0_def dgt_def Let_def)
  have pre: "neutron_loop L0 light_water neutron1 0 ?z = Inr (0, True, ?z)"
    by (simp add: neutron_loop_def light_water_def)
  have sab: "sab_lookup L0 light_water neutron1 0 0 True = Inr ((0, Fin (7 / 8)), 1, False)"
    by (simp add: sab_lookup_def light_water_def vec_at_def L0_def neutron1_def dgt_def)
  from refresh_iff_cache_differs [OF n ret k]
  obtain j cs simk i_sab sf j' cs' simk' where
    pre': "neutron_loop L0 light_water neutron1 0 ?z = Inr (j, cs, simk)"
    and sab': "sab_lookup L0 light_water neutron1 0 j cs = Inr ((i_sab, sf), j', cs')"
    and post': "neutron_loop L0 light_water neutron1 (Suc 0) ?z = Inr (j', cs', simk')"
    and calls': "(xs_calls simk' = xs_calls simk
             @ [NuclideCall (nuclide light_water ! 0) i_sab (E neutron1)
                  (log_grid_index L0 (E neutron1)) (sqrtkT neutron1) sf])
          = (dne (E neutron1) (NuclideMicroXS.last_E (micro_xs simk (nuclide light_water ! 0)))
             \<or> dne (sqrtkT neutron1) (NuclideMicroXS.last_sqrtkT (micro_xs simk (nuclide light_water ! 0)))
             \<or> i_sab \<noteq> index_sab (micro_xs simk (nuclide light_water ! 0))
             \<or> dne sf (sab_frac (micro_xs simk (nuclide light_water ! 0))))"
    by blast
  from pre pre' have s: "j = 0" "cs = True" "simk = ?z" by simp_all
  from sab sab' have b: "i_sab = 0" "sf = Fin (7 / 8)" "j' = 1" "cs' = False"
    unfolding s by simp_all
  from post' have post: "neutron_loop L0 light_water neutron1 (Suc 0) ?z = Inr (1, False, simk')"
    unfolding b .
  note calls = calls' [unfolded s b]
  from calls have "xs_calls simk' = [NuclideCall 0 0 (Fin 1) 0 (Fin (1 / 8)) (Fin (7 / 8))]"
    by (simp add: sim0_def micro0_def neutron1_def L0_def light_water_def steam_def)
  with ret post show ?thesis by blast
qed

section \<open>The distance to the next boundary\<close>

lemma dlt_NaN [simp]: "dlt a NaN = False"
  by (cases a) simp_all

lemma for_loop_numeral: "for_loop (numeral n) body s = for_loop (Suc (pred_numeral n)) body s"
  by (simp only: numeral_eq_Suc)

text \<open>
  With a positive precision the replacement test fails for a candidate that equals a
  finite incumbent, and for a candidate that is not below a positive incumbent: the
  difference is rounded to a number that is not positive, and so is the quotient.
\<close>

lemma replaces_equal:
  assumes "dgt (FP_REL_PRECISION K) (Fin 0)"
  shows "\<not> replaces K (Fin d) (Fin d)"
  using assms
  by (cases "FP_REL_PRECISION K") (auto simp: replaces_def deq_def dge_def dgt_def dsub_def)

lemma replaces_not_smaller:
  assumes "dgt (FP_REL_PRECISION K) (Fin 0)" and "0 < d"
    and "cand = PInf \<or> (\<exists>c. cand = Fin c \<and> d \<le> c)"
  shows "\<not> replaces K (Fin d) cand"
proof -
  have low: "\<not> dge (ddiv q (Fin d)) (FP_REL_PRECISION K)"
    if "q = NInf \<or> (\<exists>r. q = Fin r \<and> r \<le> 0)" for q
  proof -
    from that consider "q = NInf" | r where "q = Fin r" "r \<le> 0" by blast
    then have "ddiv q (Fin d) = NInf \<or> (\<exists>r. ddiv q (Fin d) = Fin r \<and> r \<le> 0)"
    proof cases
      case 1
      with assms(2) show ?thesis by simp
    next
      case 2
      from 2(2) assms(2) have "r / d \<le> 0" by (simp add: divide_le_0_iff)
      from round64_nonpos [OF this] 2(1) assms(2) show ?thesis by simp
    qed
    with assms(1) show ?thesis
      by (cases "FP_REL_PRECISION K") (auto simp: dge_def deq_def dgt_def)
  qed
  from assms(3) have "dsub (Fin d) cand = NInf \<or> (\<exists>r. dsub (Fin d) cand = Fin r \<and> r \<le> 0)"
  proof
    assume "cand = PInf"
    then show ?thesis by (simp add: dsub_def)
  next
    assume "\<exists>c. cand = Fin c \<and> d \<le> c"
    then obtain c where c: "cand = Fin c" "d \<le> c" by blast
    then have "d + - c \<le> 0" by simp
    from round64_nonpos [OF this] c(1) show ?thesis by (simp add: dsub_def)
  qed
  from low [OF this] show ?thesis by (simp add: replaces_def deq_def)
qed

text \<open>
  A candidate that lies below the incumbent by at most half the relative precision
  fails the test as well.  The bounds on the precision and on the incumbent keep the
  rounding errors of the subtraction and of the division, which are relative errors of
  \<open>pow2 (- 53)\<close> or absolute errors of \<open>pow2 (- 1075)\<close>, below the other half.
\<close>

lemma replaces_close:
  assumes "FP_REL_PRECISION K = Fin e" and "pow2 (- 60) \<le> e" and "e \<le> 1"
    and "pow2 (- 1000) \<le> d" and "d \<le> pow2 1000"
    and "c \<le> d" and "d - c \<le> e / 2 * d"
  shows "\<not> replaces K (Fin d) (Fin c)"
proof (cases "c = d")
  case True
  have "dgt (FP_REL_PRECISION K) (Fin 0)"
    using assms(1,2) pow2_pos [of "- 60"] by (simp add: dgt_def)
  from replaces_equal [OF this, of d] True show ?thesis by simp
next
  case False
  define u where "u = pow2 (- 53)"
  define t where "t = pow2 (- 1022)"
  have e0: "0 < e" using assms(2) pow2_pos [of "- 60"] by linarith
  have d0: "0 < d" using assms(4) pow2_pos [of "- 1000"] by linarith
  have u: "0 < u" "u \<le> 1 / 8" by (simp_all add: u_def pow2_def)
  have t0: "0 < t" by (simp add: t_def pow2_pos)
  have te: "t \<le> e"
  proof -
    have "pow2 (- 1022) \<le> pow2 (- 60)" by (rule pow2_mono) simp
    with assms(2) show ?thesis by (simp add: t_def)
  qed
  have td: "t / d \<le> pow2 (- 22)"
  proof -
    have "pow2 (- 1022) = pow2 (- 1000 + - 22)" by simp
    also have "\<dots> = pow2 (- 1000) * pow2 (- 22)" by (simp only: pow2_add)
    also have "\<dots> \<le> d * pow2 (- 22)"
      using assms(4) pow2_pos [of "- 22"] by (simp add: mult_right_mono)
    finally show ?thesis using d0 by (simp add: t_def field_simps)
  qed
  have vu: "pow2 (- 22) * u \<le> e / 8"
  proof -
    have "pow2 (- 22) * u = pow2 (- 22 + - 53)" unfolding u_def by (simp only: pow2_add)
    also have "\<dots> = pow2 (- 60 + - 15)" by simp
    also have "\<dots> = pow2 (- 60) * pow2 (- 15)" by (simp only: pow2_add)
    also have "\<dots> \<le> e * pow2 (- 15)"
      using assms(2) pow2_pos [of "- 15"] by (simp add: mult_right_mono)
    also have "\<dots> \<le> e * (1 / 8)"
      using e0 by (intro mult_left_mono) (simp_all add: pow2_def)
    finally show ?thesis by simp
  qed
  let ?x = "d + - c"
  from False assms(6) have x0: "0 < ?x" by simp
  have xd: "?x / d \<le> e / 2" using assms(7) d0 by (simp add: field_simps)
  have "?x \<le> 1 / 2 * d" 
  proof -
    have "e / 2 * d \<le> 1 / 2 * d" using assms(3) d0 by (simp add: mult_right_mono)
    with assms(7) show ?thesis by simp
  qed
  also have "\<dots> < pow2 1023"
  proof -
    have "pow2 1000 \<le> pow2 1023" by (rule pow2_mono) simp
    with assms(5) d0 show ?thesis by linarith
  qed
  finally have xs: "?x < pow2 1023" .
  from round64_upper [OF x0 xs] obtain r1 where r1: "round64 ?x = Fin r1" "0 \<le> r1"
    "r1 \<le> ?x + (?x + t) * u"
    unfolding u_def t_def by blast
  let ?q = "r1 / d"
  have q0: "0 \<le> ?q" using r1(2) d0 by simp
  have qb: "?q \<le> 3 / 4 * e"
  proof -
    have "?q \<le> (?x + (?x + t) * u) / d" using r1(3) d0 by (simp add: divide_right_mono)
    also have "\<dots> = ?x / d + (?x / d + t / d) * u"
      by (simp only: distrib_right add_divide_distrib times_divide_eq_left)
    also have "\<dots> \<le> e / 2 + (e / 2 + pow2 (- 22)) * u"
      using xd td u(1) by (intro add_mono mult_right_mono) simp_all
    also have "\<dots> = e / 2 + e / 2 * u + pow2 (- 22) * u" by (simp add: field_simps)
    also have "\<dots> \<le> e / 2 + e / 2 * (1 / 8) + e / 8"
      using vu u(2) e0 by (intro add_mono mult_left_mono) simp_all
    also have "\<dots> \<le> 3 / 4 * e" using e0 by simp
    finally show ?thesis .
  qed
  have div: "ddiv (dsub (Fin d) (Fin c)) (Fin d) = round64 ?q"
    using d0 r1(1) by (simp add: dsub_def)
  have "\<exists>r2. round64 ?q = Fin r2 \<and> r2 < e"
  proof (cases "?q = 0")
    case True
    then have "round64 ?q = Fin 0" by (simp only: round64_zero)
    with e0 show ?thesis by blast
  next
    case False
    with q0 have qp: "0 < ?q" by (simp only: less_le) simp
    have "?q < pow2 1023"
    proof -
      have "(1::real) \<le> pow2 1023" using pow2_mono [of 0 1023] by (simp add: pow2_def)
      with qb assms(3) e0 show ?thesis by linarith
    qed
    from round64_upper [OF qp this] obtain r2 where r2: "round64 ?q = Fin r2"
      "r2 \<le> ?q + (?q + t) * u"
      unfolding u_def t_def by blast
    have "(?q + t) * u \<le> (3 / 4 * e + e) * (1 / 8)"
      using qb te u q0 t0 by (intro mult_mono add_mono) simp_all
    with r2(2) qb have "r2 \<le> 3 / 4 * e + (3 / 4 * e + e) * (1 / 8)" by linarith
    also have "\<dots> < e" using e0 by simp
    finally show ?thesis using r2(1) by blast
  qed
  then obtain r2 where "round64 ?q = Fin r2" "r2 < e" by blast
  with div assms(1) have "\<not> dge (ddiv (dsub (Fin d) (Fin c)) (Fin d)) (FP_REL_PRECISION K)"
    by (simp add: dge_def deq_def)
  then show ?thesis by (simp add: replaces_def deq_def)
qed

text \<open>The lattice part of a level leaves the four results as they are.\<close>

lemma update_lattice_fields:
  "dist (update_lattice p ld b) = dist b"
  "surface_crossed (update_lattice p ld b) = surface_crossed b"
  "lattice_translation (update_lattice p ld b) = lattice_translation b"
  "next_level (update_lattice p ld b) = next_level b"
  "d_lat (update_lattice p ld b) = (case ld of None \<Rightarrow> d_lat b | Some (d, t) \<Rightarrow> d)"
  "level_lat_trans (update_lattice p ld b) = (case ld of None \<Rightarrow> level_lat_trans b | Some (d, t) \<Rightarrow> t)"
  by (auto simp: update_lattice_def Let_def split: option.splits)

text \<open>The comparison at one level: the candidate wins, or nothing is written.\<close>

lemma choose_boundary_cases:
  assumes "choose_boundary K G i c cd (d_surf, lsc) b = Inr b'"
    and "cand = (if dlt d_surf (d_lat b) then d_surf else d_lat b)"
  shows "(replaces K (dist b) cand \<longrightarrow>
            dist b' = cand \<and> next_level b' = int i + 1
            \<and> (if dlt d_surf (d_lat b)
               then crossed_surface G c cd d_surf lsc = Inr (surface_crossed b')
                    \<and> lattice_translation b' = (0, 0, 0)
               else surface_crossed b' = F90_NONE K
                    \<and> lattice_translation b' = level_lat_trans b))
       \<and> (\<not> replaces K (dist b) cand \<longrightarrow> b' = b)"
  using assms by (auto simp: choose_boundary_def split: if_splits sum.splits)

lemma choose_boundary_keeps:
  assumes "choose_boundary K G i c cd sd b = Inr b'"
  shows "d_lat b' = d_lat b \<and> level_lat_trans b' = level_lat_trans b \<and> part b' = part b"
  using assms by (cases sd) (auto simp: choose_boundary_def split: if_splits sum.splits)

lemma level_body_Inr:
  assumes "level_body K G p i b = Inr b'"
  obtains cd c ld d_surf lsc where "vec_at (coord p) (int i) = Inr cd"
    and "vec_at (cells G) (cell cd) = Inr c"
    and "level_lattice K G p i = Inr ld"
    and "cell_distance G (cell cd) (xyz cd) (uvw cd) (surface p) = (d_surf, lsc)"
    and "choose_boundary K G i c cd (d_surf, lsc) (update_lattice p ld b) = Inr b'"
proof -
  from assms obtain cd c ld where cd: "vec_at (coord p) (int i) = Inr cd"
    and c: "vec_at (cells G) (cell cd) = Inr c"
    and ld: "level_lattice K G p i = Inr ld"
    and ch: "choose_boundary K G i c cd (cell_distance G (cell cd) (xyz cd) (uvw cd) (surface p))
               (update_lattice p ld b) = Inr b'"
    by (auto simp: level_body_def split: sum.splits)
  obtain d_surf lsc where sd:
    "cell_distance G (cell cd) (xyz cd) (uvw cd) (surface p) = (d_surf, lsc)"
    by (cases "cell_distance G (cell cd) (xyz cd) (uvw cd) (surface p)")
  from that [OF cd c ld sd] ch sd show thesis by simp
qed

text \<open>A level writes the four results together, with its own number, or none of them.\<close>

lemma level_body_later:
  assumes "level_body K G p i u = Inr u'"
  shows "(dist u' = dist u \<and> surface_crossed u' = surface_crossed u
          \<and> lattice_translation u' = lattice_translation u \<and> next_level u' = next_level u)
       \<or> next_level u' = int i + 1"
proof -
  from assms obtain cd c ld d_surf lsc where
    ch: "choose_boundary K G i c cd (d_surf, lsc) (update_lattice p ld u) = Inr u'"
    by (rule level_body_Inr)
  let ?u1 = "update_lattice p ld u"
  let ?cand = "if dlt d_surf (d_lat ?u1) then d_surf else d_lat ?u1"
  show ?thesis
  proof (cases "replaces K (dist ?u1) ?cand")
    case True
    with choose_boundary_cases [OF ch refl] have "next_level u' = int i + 1" by blast
    then show ?thesis ..
  next
    case False
    with choose_boundary_cases [OF ch refl] have "u' = ?u1" by blast
    then show ?thesis by (simp add: update_lattice_fields)
  qed
qed

text \<open>
  A property that holds after \<open>k\<close> iterations and that every later iteration preserves
  holds after the loop.
\<close>

lemma for_loop_after:
  assumes "for_loop n body s = Inr s'" and "for_loop k body s = Inr t" and "k \<le> n"
    and "Q t"
    and "\<And>i u u'. k \<le> i \<Longrightarrow> i < n \<Longrightarrow> Q u \<Longrightarrow> body i u = Inr u' \<Longrightarrow> Q u'"
  shows "Q s'"
  using assms(1,3,5)
proof (induction n arbitrary: s')
  case 0
  with assms(2,4) show ?case by simp
next
  case (Suc n)
  show ?case
  proof (cases "k = Suc n")
    case True
    with Suc.prems(1) assms(2,4) show ?thesis by simp
  next
    case False
    with Suc.prems(2) have le: "k \<le> n" by simp
    from Suc.prems(1) obtain u where u: "for_loop n body s = Inr u" "body n u = Inr s'"
      by (auto split: sum.splits)
    have "Q u"
    proof (rule Suc.IH [OF u(1) le])
      fix i v v' assume "k \<le> i" "i < n" "Q v" "body i v = Inr v'"
      then show "Q v'" using Suc.prems(3) [of i v v'] by simp
    qed
    with Suc.prems(3) [of n u s'] le u(2) show ?thesis by simp
  qed
qed

text \<open>
  Claim C1.  Let \<^verbatim>\<open>distance_to_boundary\<close> return, with the results \<open>bf\<close>.  Its loop runs
  over the coordinate levels from the outermost frame inwards, starting with the
  distance infinity.  Take a level \<open>k\<close>: \<open>b\<close> is the state left by the levels above,
  \<open>b'\<close> the state after level \<open>k\<close> (the results themselves, when \<open>k\<close> is the last level).
  The level puts forward the cell-surface distance when it is less than the lattice
  distance and the lattice distance otherwise (the lattice distance is the value of
  \<^verbatim>\<open>d_lat\<close>: that of this frame's lattice, or when the frame is in no lattice the value
  left by the levels above, infinity at first); for finite values this is the smaller
  of the two.  The candidate replaces the incumbent distance exactly when the test
  \<open>replaces\<close> holds: the incumbent is infinite or
  \<open>(incumbent - candidate) / incumbent\<close>, as computed, is at least \<^verbatim>\<open>FP_REL_PRECISION\<close>.
  Then the distance is the candidate, the level is \<open>k + 1\<close>, and crossed surface and
  lattice translation are those of the candidate; otherwise distance, crossed surface,
  lattice translation and level stay as the levels above left them.  With a positive
  precision the test fails for a candidate that equals a finite incumbent and for one
  that is not below a positive incumbent; for a precision between \<open>pow2 (- 60)\<close> and 1
  and an incumbent between \<open>pow2 (- 1000)\<close> and \<open>pow2 1000\<close> it also fails for a candidate
  that is below the incumbent by at most half the relative precision.  So a boundary of
  a deeper level that coincides with the boundary chosen on a coarser level does not
  displace that choice; and results that name a level up to \<open>k + 1\<close> are those that
  level \<open>k\<close> left.
\<close>

theorem coincident_boundary_keeps_coarser_level:
  assumes "distance_to_boundary K G sc0 nl0 lt0 (p, ev) = Inr bf"
    and "k < nat (n_coord p)"
  shows "\<exists>b b' cd c d_surf lsc ld dl lt cand.
       for_loop k (level_body K G p) (boundary_init sc0 nl0 lt0 (p, ev)) = Inr b
     \<and> for_loop (Suc k) (level_body K G p) (boundary_init sc0 nl0 lt0 (p, ev)) = Inr b'
     \<and> (Suc k = nat (n_coord p) \<longrightarrow> bf = b')
     \<and> vec_at (coord p) (int k) = Inr cd \<and> vec_at (cells G) (cell cd) = Inr c
     \<and> cell_distance G (cell cd) (xyz cd) (uvw cd) (surface p) = (d_surf, lsc)
     \<and> level_lattice K G p k = Inr ld
     \<and> dl = (case ld of None \<Rightarrow> d_lat b | Some (d, t) \<Rightarrow> d)
     \<and> lt = (case ld of None \<Rightarrow> level_lat_trans b | Some (d, t) \<Rightarrow> t)
     \<and> cand = (if dlt d_surf dl then d_surf else dl)
     \<and> (\<forall>x y. d_surf = Fin x \<and> dl = Fin y \<longrightarrow> cand = Fin (min x y))
     \<and> d_lat b' = dl \<and> level_lat_trans b' = lt
     \<and> (replaces K (dist b) cand \<longrightarrow>
           dist b' = cand \<and> next_level b' = int k + 1
           \<and> (if dlt d_surf dl
              then crossed_surface G c cd d_surf lsc = Inr (surface_crossed b')
                   \<and> lattice_translation b' = (0, 0, 0)
              else surface_crossed b' = F90_NONE K \<and> lattice_translation b' = lt))
     \<and> (\<not> replaces K (dist b) cand \<longrightarrow>
           dist b' = dist b \<and> surface_crossed b' = surface_crossed b
           \<and> lattice_translation b' = lattice_translation b \<and> next_level b' = next_level b)
     \<and> (dgt (FP_REL_PRECISION K) (Fin 0)
          \<and> (\<exists>d. dist b = Fin d
                 \<and> (cand = Fin d \<or> 0 < d \<and> (cand = PInf \<or> (\<exists>c'. cand = Fin c' \<and> d \<le> c'))))
          \<longrightarrow> dist b' = dist b \<and> surface_crossed b' = surface_crossed b
              \<and> lattice_translation b' = lattice_translation b \<and> next_level b' = next_level b)
     \<and> (\<forall>e d c'. FP_REL_PRECISION K = Fin e \<and> pow2 (- 60) \<le> e \<and> e \<le> 1
            \<and> dist b = Fin d \<and> pow2 (- 1000) \<le> d \<and> d \<le> pow2 1000
            \<and> cand = Fin c' \<and> c' \<le> d \<and> d - c' \<le> e / 2 * d
          \<longrightarrow> dist b' = dist b \<and> surface_crossed b' = surface_crossed b
              \<and> lattice_translation b' = lattice_translation b \<and> next_level b' = next_level b)
     \<and> (next_level bf \<le> int k + 1 \<longrightarrow>
           dist bf = dist b' \<and> surface_crossed bf = surface_crossed b'
           \<and> lattice_translation bf = lattice_translation b' \<and> next_level bf = next_level b')"
proof -
  let ?b0 = "boundary_init sc0 nl0 lt0 (p, ev)"
  let ?body = "level_body K G p"
  from assms(1) have loop: "for_loop (nat (n_coord p)) ?body ?b0 = Inr bf"
    by (simp add: distance_to_boundary_def)
  from assms(2) have le: "Suc k \<le> nat (n_coord p)" by simp
  from for_loop_prefix [OF loop le] obtain b' where b': "for_loop (Suc k) ?body ?b0 = Inr b'" ..
  then obtain b where b: "for_loop k ?body ?b0 = Inr b" and step: "?body k b = Inr b'"
    by (auto split: sum.splits)
  from step obtain cd c ld d_surf lsc where cd: "vec_at (coord p) (int k) = Inr cd"
    and c: "vec_at (cells G) (cell cd) = Inr c"
    and ld: "level_lattice K G p k = Inr ld"
    and sd: "cell_distance G (cell cd) (xyz cd) (uvw cd) (surface p) = (d_surf, lsc)"
    and ch: "choose_boundary K G k c cd (d_surf, lsc) (update_lattice p ld b) = Inr b'"
    by (rule level_body_Inr)
  let ?b1 = "update_lattice p ld b"
  let ?dl = "case ld of None \<Rightarrow> d_lat b | Some (d, t) \<Rightarrow> d"
  let ?lt = "case ld of None \<Rightarrow> level_lat_trans b | Some (d, t) \<Rightarrow> t"
  let ?cand = "if dlt d_surf ?dl then d_surf else ?dl"
  let ?same = "dist b' = dist b \<and> surface_crossed b' = surface_crossed b
     \<and> lattice_translation b' = lattice_translation b \<and> next_level b' = next_level b"
  have last: "Suc k = nat (n_coord p) \<longrightarrow> bf = b'"
  proof
    assume e: "Suc k = nat (n_coord p)"
    from loop have "for_loop (Suc k) ?body ?b0 = Inr bf" unfolding e [symmetric] .
    with b' show "bf = b'" by (simp del: for_loop.simps)
  qed
  have smaller: "\<forall>x y. d_surf = Fin x \<and> ?dl = Fin y \<longrightarrow> ?cand = Fin (min x y)"
    by auto
  have lat: "d_lat b' = ?dl \<and> level_lat_trans b' = ?lt"
    using choose_boundary_keeps [OF ch] by (simp add: update_lattice_fields)
  have dl1: "d_lat ?b1 = ?dl" "level_lat_trans ?b1 = ?lt" "dist ?b1 = dist b"
    by (simp_all add: update_lattice_fields)
  have cand_eq: "?cand = (if dlt d_surf (d_lat ?b1) then d_surf else d_lat ?b1)"
    unfolding dl1 ..
  note cc = choose_boundary_cases [OF ch cand_eq, unfolded dl1]
  have yes: "replaces K (dist b) ?cand \<longrightarrow>
           dist b' = ?cand \<and> next_level b' = int k + 1
           \<and> (if dlt d_surf ?dl
              then crossed_surface G c cd d_surf lsc = Inr (surface_crossed b')
                   \<and> lattice_translation b' = (0, 0, 0)
              else surface_crossed b' = F90_NONE K \<and> lattice_translation b' = ?lt)"
    using cc by blast
  have no: "\<not> replaces K (dist b) ?cand \<longrightarrow> ?same"
  proof
    assume "\<not> replaces K (dist b) ?cand"
    with cc have "b' = ?b1" by blast
    then show ?same by (simp add: update_lattice_fields)
  qed
  have coincident: "dgt (FP_REL_PRECISION K) (Fin 0)
          \<and> (\<exists>d. dist b = Fin d
                 \<and> (?cand = Fin d \<or> 0 < d \<and> (?cand = PInf \<or> (\<exists>c'. ?cand = Fin c' \<and> d \<le> c'))))
          \<longrightarrow> ?same"
  proof
    assume a: "dgt (FP_REL_PRECISION K) (Fin 0)
          \<and> (\<exists>d. dist b = Fin d
                 \<and> (?cand = Fin d \<or> 0 < d \<and> (?cand = PInf \<or> (\<exists>c'. ?cand = Fin c' \<and> d \<le> c'))))"
    then obtain d where eps: "dgt (FP_REL_PRECISION K) (Fin 0)" and d: "dist b = Fin d"
      and cases: "?cand = Fin d \<or> 0 < d \<and> (?cand = PInf \<or> (\<exists>c'. ?cand = Fin c' \<and> d \<le> c'))"
      by blast
    from cases have "\<not> replaces K (Fin d) ?cand"
    proof
      assume "?cand = Fin d"
      with replaces_equal [OF eps, of d] show ?thesis by simp
    next
      assume "0 < d \<and> (?cand = PInf \<or> (\<exists>c'. ?cand = Fin c' \<and> d \<le> c'))"
      then show ?thesis using replaces_not_smaller [OF eps, of d ?cand] by blast
    qed
    with no d show ?same by simp
  qed
  have close: "\<forall>e d c'. FP_REL_PRECISION K = Fin e \<and> pow2 (- 60) \<le> e \<and> e \<le> 1
            \<and> dist b = Fin d \<and> pow2 (- 1000) \<le> d \<and> d \<le> pow2 1000
            \<and> ?cand = Fin c' \<and> c' \<le> d \<and> d - c' \<le> e / 2 * d
          \<longrightarrow> ?same"
  proof (intro allI impI)
    fix e d c'
    assume a: "FP_REL_PRECISION K = Fin e \<and> pow2 (- 60) \<le> e \<and> e \<le> 1
            \<and> dist b = Fin d \<and> pow2 (- 1000) \<le> d \<and> d \<le> pow2 1000
            \<and> ?cand = Fin c' \<and> c' \<le> d \<and> d - c' \<le> e / 2 * d"
    then have "\<not> replaces K (Fin d) (Fin c')" using replaces_close by blast
    with no a show ?same by simp
  qed
  have final: "next_level bf \<le> int k + 1 \<longrightarrow>
           dist bf = dist b' \<and> surface_crossed bf = surface_crossed b'
           \<and> lattice_translation bf = lattice_translation b' \<and> next_level bf = next_level b'"
  proof -
    let ?Q = "\<lambda>u. (dist u = dist b' \<and> surface_crossed u = surface_crossed b'
           \<and> lattice_translation u = lattice_translation b' \<and> next_level u = next_level b')
        \<or> int k + 1 < next_level u"
    have "?Q bf"
    proof (rule for_loop_after [OF loop b' le])
      show "?Q b'" by simp
    next
      fix i u u' assume i: "Suc k \<le> i" and q: "?Q u" and s: "?body i u = Inr u'"
      from level_body_later [OF s] i q show "?Q u'" by auto
    qed
    then show ?thesis by auto
  qed
  show ?thesis
    using b b' last cd c sd ld smaller lat yes no coincident close final by blast
qed

text \<open>
  The located neutron in \<open>G1\<close>: the surface of cell 0 (level 1) and the face of the
  lattice tile (level 2) are both at distance 5, and the surface crossing is returned.
  In \<open>G4\<close> the surface is at distance 8 and the face of the tile nearer by \<open>pow2 (- 20)\<close>,
  which is less than half the relative precision of 8; again the surface crossing is
  returned.
\<close>

lemma located_boundary:
  "distance_to_boundary K0 G1 0 0 (0, 0, 0) (located, []) =
     Inr \<lparr>dist = Fin 5, surface_crossed = 1, lattice_translation = (0, 0, 0), next_level = 1,
          d_lat = Fin 5, level_lat_trans = (1, 0, 0), part = (located, [])\<rparr>"
  by (simp add: distance_to_boundary_def level_body_def level_lattice_def choose_boundary_def
      crossed_surface_def update_lattice_def replaces_def deq_def dge_def
      dsub_def boundary_init_def vec_at_def lattice_ijk_def located_def neutron1_def frame0_def
      G1_def cell0_def cell1_def K0_def for_loop_numeral)

lemma located_boundary_G4:
  "distance_to_boundary K0 G4 0 0 (0, 0, 0) (located, []) =
     Inr \<lparr>dist = Fin 8, surface_crossed = 1, lattice_translation = (0, 0, 0), next_level = 1,
          d_lat = Fin (8388607 / 1048576), level_lat_trans = (1, 0, 0), part = (located, [])\<rparr>"
  by (simp add: distance_to_boundary_def level_body_def level_lattice_def choose_boundary_def
      crossed_surface_def update_lattice_def replaces_def deq_def dge_def
      dsub_def boundary_init_def vec_at_def lattice_ijk_def located_def neutron1_def frame0_def
      G4_def G1_def cell0_def cell1_def K0_def for_loop_numeral round64_eval)

theorem coincident_boundary_keeps_coarser_level_witness:
  "(\<exists>b bf. for_loop 1 (level_body K0 G1 located) (boundary_init 0 0 (0, 0, 0) (located, [])) = Inr b
      \<and> distance_to_boundary K0 G1 0 0 (0, 0, 0) (located, []) = Inr bf
      \<and> dist b = Fin 5 \<and> surface_crossed b = 1 \<and> lattice_translation b = (0, 0, 0)
      \<and> next_level b = 1
      \<and> d_lat bf = Fin 5 \<and> level_lat_trans bf = (1, 0, 0)
      \<and> dist bf = Fin 5 \<and> surface_crossed bf = 1 \<and> lattice_translation bf = (0, 0, 0)
      \<and> next_level bf = 1)
   \<and> (\<exists>b bf. for_loop 1 (level_body K0 G4 located) (boundary_init 0 0 (0, 0, 0) (located, [])) = Inr b
      \<and> distance_to_boundary K0 G4 0 0 (0, 0, 0) (located, []) = Inr bf
      \<and> dist b = Fin 8 \<and> surface_crossed b = 1 \<and> lattice_translation b = (0, 0, 0)
      \<and> next_level b = 1
      \<and> d_lat bf = Fin (8388607 / 1048576) \<and> level_lat_trans bf = (1, 0, 0)
      \<and> dist bf = Fin 8 \<and> surface_crossed bf = 1 \<and> lattice_translation bf = (0, 0, 0)
      \<and> next_level bf = 1)"
proof
  let ?b0 = "boundary_init 0 0 (0, 0, 0) (located, [])"
  let ?b1 = "\<lparr>dist = Fin 5, surface_crossed = 1, lattice_translation = (0, 0, 0), next_level = 1,
              d_lat = PInf, level_lat_trans = (0, 0, 0), part = (located, [])\<rparr>"
  let ?cd = "frame0\<lparr>universe := 1, cell := 1, lattice := 1\<rparr>"
  obtain bf where ret: "distance_to_boundary K0 G1 0 0 (0, 0, 0) (located, []) = Inr bf"
    using located_boundary by blast
  have k: "1 < nat (n_coord located)" by (simp add: located_def)
  have l1: "for_loop 1 (level_body K0 G1 located) ?b0 = Inr ?b1"
    by (simp add: level_body_def level_lattice_def choose_boundary_def crossed_surface_def
        update_lattice_def replaces_def deq_def boundary_init_def vec_at_def located_def
        neutron1_def frame0_def G1_def cell0_def K0_def)
  have cd: "vec_at (coord located) (int 1) = Inr ?cd"
    by (simp add: vec_at_def located_def)
  have ld: "level_lattice K0 G1 located 1 = Inr (Some (Fin 5, (1, 0, 0)))"
    by (simp add: level_lattice_def vec_at_def located_def frame0_def G1_def K0_def lattice_ijk_def)
  have eps: "dgt (FP_REL_PRECISION K0) (Fin 0)" by (simp add: K0_def dgt_def)
  from coincident_boundary_keeps_coarser_level [OF ret k]
  obtain b b' cd' c d_surf lsc ld' dl lt cand where
    b: "for_loop 1 (level_body K0 G1 located) ?b0 = Inr b"
    and b': "for_loop (Suc 1) (level_body K0 G1 located) ?b0 = Inr b'"
    and last: "Suc 1 = nat (n_coord located) \<longrightarrow> bf = b'"
    and cd': "vec_at (coord located) (int 1) = Inr cd'"
    and sd: "cell_distance G1 (cell cd') (xyz cd') (uvw cd') (surface located) = (d_surf, lsc)"
    and ld': "level_lattice K0 G1 located 1 = Inr ld'"
    and dl: "dl = (case ld' of None \<Rightarrow> d_lat b | Some (d, t) \<Rightarrow> d)"
    and lt: "lt = (case ld' of None \<Rightarrow> level_lat_trans b | Some (d, t) \<Rightarrow> t)"
    and cand: "cand = (if dlt d_surf dl then d_surf else dl)"
    and lat: "d_lat b' = dl \<and> level_lat_trans b' = lt"
    and coincident: "dgt (FP_REL_PRECISION K0) (Fin 0)
          \<and> (\<exists>d. dist b = Fin d
                 \<and> (cand = Fin d \<or> 0 < d \<and> (cand = PInf \<or> (\<exists>c'. cand = Fin c' \<and> d \<le> c'))))
          \<longrightarrow> dist b' = dist b \<and> surface_crossed b' = surface_crossed b
              \<and> lattice_translation b' = lattice_translation b \<and> next_level b' = next_level b"
    by blast
  from b l1 have b1: "b = ?b1" by simp
  from cd cd' have "cd' = ?cd" by simp
  with sd have "d_surf = Fin 8" by (simp add: G1_def)
  moreover from ld ld' have ld1: "ld' = Some (Fin 5, (1, 0, 0))" by simp
  ultimately have c5: "cand = Fin 5" "dl = Fin 5" "lt = (1, 0, 0)"
    using dl lt cand by simp_all
  from coincident eps c5(1) b1
  have "dist b' = Fin 5 \<and> surface_crossed b' = 1 \<and> lattice_translation b' = (0, 0, 0)
      \<and> next_level b' = 1"
    by simp
  moreover from last have "bf = b'" by (simp add: located_def)
  ultimately show "\<exists>b bf. for_loop 1 (level_body K0 G1 located) ?b0 = Inr b
      \<and> distance_to_boundary K0 G1 0 0 (0, 0, 0) (located, []) = Inr bf
      \<and> dist b = Fin 5 \<and> surface_crossed b = 1 \<and> lattice_translation b = (0, 0, 0)
      \<and> next_level b = 1
      \<and> d_lat bf = Fin 5 \<and> level_lat_trans bf = (1, 0, 0)
      \<and> dist bf = Fin 5 \<and> surface_crossed bf = 1 \<and> lattice_translation bf = (0, 0, 0)
      \<and> next_level bf = 1"
    using l1 ret lat c5 by (intro exI [of _ ?b1] exI [of _ bf]) simp
next
  let ?b0 = "boundary_init 0 0 (0, 0, 0) (located, [])"
  let ?b1 = "\<lparr>dist = Fin 8, surface_crossed = 1, lattice_translation = (0, 0, 0), next_level = 1,
              d_lat = PInf, level_lat_trans = (0, 0, 0), part = (located, [])\<rparr>"
  let ?cd = "frame0\<lparr>universe := 1, cell := 1, lattice := 1\<rparr>"
  obtain bf where ret: "distance_to_boundary K0 G4 0 0 (0, 0, 0) (located, []) = Inr bf"
    using located_boundary_G4 by blast
  have k: "1 < nat (n_coord located)" by (simp add: located_def)
  have l1: "for_loop 1 (level_body K0 G4 located) ?b0 = Inr ?b1"
    by (simp add: level_body_def level_lattice_def choose_boundary_def crossed_surface_def
        update_lattice_def replaces_def deq_def boundary_init_def vec_at_def located_def
        neutron1_def frame0_def G4_def G1_def cell0_def K0_def)
  have cd: "vec_at (coord located) (int 1) = Inr ?cd"
    by (simp add: vec_at_def located_def)
  have ld: "level_lattice K0 G4 located 1 = Inr (Some (Fin (8388607 / 1048576), (1, 0, 0)))"
    by (simp add: level_lattice_def vec_at_def located_def frame0_def G4_def G1_def K0_def
        lattice_ijk_def)
  have eps: "FP_REL_PRECISION K0 = Fin (5902958103587057 / 590295810358705651712)
      \<and> pow2 (- 60) \<le> 5902958103587057 / 590295810358705651712
      \<and> 5902958103587057 / 590295810358705651712 \<le> (1 :: real)"
    by (simp add: K0_def pow2_def)
  have range: "pow2 (- 1000) \<le> 8 \<and> 8 \<le> pow2 1000 \<and> 8388607 / 1048576 \<le> (8 :: real)
      \<and> 8 - 8388607 / 1048576 \<le> 5902958103587057 / 590295810358705651712 / 2 * (8 :: real)"
    by (simp add: pow2_def)
  from coincident_boundary_keeps_coarser_level [OF ret k]
  obtain b b' cd' c d_surf lsc ld' dl lt cand where
    b: "for_loop 1 (level_body K0 G4 located) ?b0 = Inr b"
    and b': "for_loop (Suc 1) (level_body K0 G4 located) ?b0 = Inr b'"
    and last: "Suc 1 = nat (n_coord located) \<longrightarrow> bf = b'"
    and cd': "vec_at (coord located) (int 1) = Inr cd'"
    and sd: "cell_distance G4 (cell cd') (xyz cd') (uvw cd') (surface located) = (d_surf, lsc)"
    and ld': "level_lattice K0 G4 located 1 = Inr ld'"
    and dl: "dl = (case ld' of None \<Rightarrow> d_lat b | Some (d, t) \<Rightarrow> d)"
    and lt: "lt = (case ld' of None \<Rightarrow> level_lat_trans b | Some (d, t) \<Rightarrow> t)"
    and cand: "cand = (if dlt d_surf dl then d_surf else dl)"
    and lat: "d_lat b' = dl \<and> level_lat_trans b' = lt"
    and close: "\<forall>e d c'. FP_REL_PRECISION K0 = Fin e \<and> pow2 (- 60) \<le> e \<and> e \<le> 1
            \<and> dist b = Fin d \<and> pow2 (- 1000) \<le> d \<and> d \<le> pow2 1000
            \<and> cand = Fin c' \<and> c' \<le> d \<and> d - c' \<le> e / 2 * d
          \<longrightarrow> dist b' = dist b \<and> surface_crossed b' = surface_crossed b
              \<and> lattice_translation b' = lattice_translation b \<and> next_level b' = next_level b"
    by blast
  from b l1 have b1: "b = ?b1" by simp
  from cd cd' have "cd' = ?cd" by simp
  with sd have "d_surf = Fin 9" by (simp add: G4_def)
  moreover from ld ld' have ld1: "ld' = Some (Fin (8388607 / 1048576), (1, 0, 0))" by simp
  ultimately have c8: "cand = Fin (8388607 / 1048576)" "dl = Fin (8388607 / 1048576)"
    "lt = (1, 0, 0)"
    using dl lt cand by simp_all
  have d8: "dist b = Fin 8" by (simp add: b1)
  from close eps range c8(1) d8
  have "dist b' = dist b \<and> surface_crossed b' = surface_crossed b
      \<and> lattice_translation b' = lattice_translation b \<and> next_level b' = next_level b"
    by blast
  then have "dist b' = Fin 8 \<and> surface_crossed b' = 1 \<and> lattice_translation b' = (0, 0, 0)
      \<and> next_level b' = 1"
    by (simp add: b1)
  moreover from last have "bf = b'" by (simp add: located_def)
  ultimately show "\<exists>b bf. for_loop 1 (level_body K0 G4 located) ?b0 = Inr b
      \<and> distance_to_boundary K0 G4 0 0 (0, 0, 0) (located, []) = Inr bf
      \<and> dist b = Fin 8 \<and> surface_crossed b = 1 \<and> lattice_translation b = (0, 0, 0)
      \<and> next_level b = 1
      \<and> d_lat bf = Fin (8388607 / 1048576) \<and> level_lat_trans bf = (1, 0, 0)
      \<and> dist bf = Fin 8 \<and> surface_crossed bf = 1 \<and> lattice_translation bf = (0, 0, 0)
      \<and> next_level bf = 1"
    using l1 ret lat c8 by (intro exI [of _ ?b1] exI [of _ bf]) simp
qed

text \<open>
  A loop that passes iteration \<open>k\<close> ends in every state property that iteration
  \<open>k\<close> establishes and the later iterations preserve.
\<close>

lemma for_loop_from:
  assumes "for_loop n body s = Inr s'" and "k < n"
    and "\<And>t t'. body k t = Inr t' \<Longrightarrow> Q t'"
    and "\<And>i t t'. Q t \<Longrightarrow> body i t = Inr t' \<Longrightarrow> Q t'"
  shows "Q s'"
  using assms(1,2)
proof (induction n arbitrary: s')
  case 0
  then show ?case by simp
next
  case (Suc n)
  then obtain t where t: "for_loop n body s = Inr t" "body n t = Inr s'"
    by (auto split: sum.splits)
  show ?case
  proof (cases "k = n")
    case True
    with t(2) assms(3) show ?thesis by blast
  next
    case False
    with Suc.prems have "k < n" by simp
    with Suc.IH t(1) have "Q t" by blast
    with t(2) assms(4) show ?thesis by blast
  qed
qed

text \<open>
  When neither the cell nor the lattice of a level reports a negative distance, the
  distance and \<^verbatim>\<open>d_lat\<close> stay non-negative over the level.
\<close>

lemma level_body_nonneg:
  assumes "\<And>cd. vec_at (coord p) (int i) = Inr cd \<Longrightarrow>
             dge (fst (cell_distance G (cell cd) (xyz cd) (uvw cd) (surface p))) (Fin 0)"
    and "\<And>d t. level_lattice K G p i = Inr (Some (d, t)) \<Longrightarrow> dge d (Fin 0)"
    and "dge (dist b) (Fin 0) \<and> dge (d_lat b) (Fin 0)"
    and "level_body K G p i b = Inr b'"
  shows "dge (dist b') (Fin 0) \<and> dge (d_lat b') (Fin 0)"
proof -
  from assms(4) obtain cd c ld d_surf lsc where cd: "vec_at (coord p) (int i) = Inr cd"
    and ld: "level_lattice K G p i = Inr ld"
    and sd: "cell_distance G (cell cd) (xyz cd) (uvw cd) (surface p) = (d_surf, lsc)"
    and ch: "choose_boundary K G i c cd (d_surf, lsc) (update_lattice p ld b) = Inr b'"
    by (rule level_body_Inr)
  let ?b1 = "update_lattice p ld b"
  have lat: "dge (d_lat ?b1) (Fin 0)"
  proof (cases ld)
    case None
    with assms(3) show ?thesis by (simp add: update_lattice_fields)
  next
    case (Some x)
    obtain d t where x: "x = (d, t)" by (cases x)
    with Some ld have "level_lattice K G p i = Inr (Some (d, t))" by simp
    then have "dge d (Fin 0)" by (rule assms(2))
    with Some x show ?thesis by (simp add: update_lattice_fields)
  qed
  have old: "dge (dist ?b1) (Fin 0)"
    using assms(3) by (simp add: update_lattice_fields)
  from assms(1) [OF cd] have surf: "dge d_surf (Fin 0)" by (simp add: sd)
  let ?cand = "if dlt d_surf (d_lat ?b1) then d_surf else d_lat ?b1"
  have cand: "dge ?cand (Fin 0)" using surf lat by simp
  from choose_boundary_keeps [OF ch] lat have 2: "dge (d_lat b') (Fin 0)" by simp
  have 1: "dge (dist b') (Fin 0)"
  proof (cases "replaces K (dist ?b1) ?cand")
    case True
    with choose_boundary_cases [OF ch refl] have "dist b' = ?cand" by blast
    with cand show ?thesis by simp
  next
    case False
    with choose_boundary_cases [OF ch refl] have "b' = ?b1" by blast
    with old show ?thesis by simp
  qed
  from 1 2 show ?thesis ..
qed

text \<open>
  A negative lattice distance marks the particle as lost, and no later level revives it.
\<close>

lemma level_body_stays_lost:
  assumes "\<not> alive (fst (part b))" and "level_body K G p i b = Inr b'"
  shows "\<not> alive (fst (part b'))"
proof -
  from assms(2) obtain cd c ld where
    ch: "choose_boundary K G i c cd (cell_distance G (cell cd) (xyz cd) (uvw cd) (surface p))
               (update_lattice p ld b) = Inr b'"
    by (auto simp: level_body_def split: sum.splits)
  have "\<not> alive (fst (part (update_lattice p ld b)))"
    using assms(1)
    by (auto simp: update_lattice_def Let_def mark_as_lost_def split: option.splits prod.splits)
  with ch show ?thesis
    by (cases "cell_distance G (cell cd) (xyz cd) (uvw cd) (surface p)")
       (auto simp: choose_boundary_def split: if_splits sum.splits)
qed

lemma level_body_marks_lost:
  assumes "level_lattice K G p k = Inr (Some (d, t))" and "dlt d (Fin 0)"
    and "level_body K G p k b = Inr b'"
  shows "\<not> alive (fst (part b'))"
proof -
  from assms(1,3) obtain cd c where
    ch: "choose_boundary K G k c cd (cell_distance G (cell cd) (xyz cd) (uvw cd) (surface p))
               (update_lattice p (Some (d, t)) b) = Inr b'"
    by (auto simp: level_body_def split: sum.splits)
  have "\<not> alive (fst (part (update_lattice p (Some (d, t)) b)))"
    using assms(2)
    by (auto simp: update_lattice_def Let_def mark_as_lost_def split: prod.splits)
  with ch show ?thesis
    by (cases "cell_distance G (cell cd) (xyz cd) (uvw cd) (surface p)")
       (auto simp: choose_boundary_def split: if_splits sum.splits)
qed

text \<open>
  Claim C4, as amended.  \<^verbatim>\<open>distance_to_boundary\<close> returns a distance \<open>d >= 0\<close> whenever
  every cell-surface distance and every lattice distance it obtains, on the levels of
  the particle, is \<open>>= 0\<close> (infinity included).  A negative lattice distance is
  reported, not filtered: the particle is marked as lost, the loop goes on, and the
  negative value takes part in the comparison.
\<close>

theorem distance_nonneg_or_lost:
  assumes "distance_to_boundary K G sc0 nl0 lt0 (p, ev) = Inr b"
  shows "((\<forall>k cd. k < nat (n_coord p) \<and> vec_at (coord p) (int k) = Inr cd
             \<longrightarrow> dge (fst (cell_distance G (cell cd) (xyz cd) (uvw cd) (surface p))) (Fin 0))
          \<and> (\<forall>k d t. k < nat (n_coord p) \<and> level_lattice K G p k = Inr (Some (d, t))
             \<longrightarrow> dge d (Fin 0))
          \<longrightarrow> dge (dist b) (Fin 0))
     \<and> (\<forall>k d t. k < nat (n_coord p) \<and> level_lattice K G p k = Inr (Some (d, t)) \<and> dlt d (Fin 0)
          \<longrightarrow> \<not> alive (fst (part b)))"
proof (intro conjI impI allI)
  from assms have loop: "for_loop (nat (n_coord p)) (level_body K G p)
      (boundary_init sc0 nl0 lt0 (p, ev)) = Inr b"
    by (simp add: distance_to_boundary_def)
  have start: "for_loop 0 (level_body K G p) (boundary_init sc0 nl0 lt0 (p, ev))
      = Inr (boundary_init sc0 nl0 lt0 (p, ev))"
    by simp
  {
    assume c: "(\<forall>k cd. k < nat (n_coord p) \<and> vec_at (coord p) (int k) = Inr cd
             \<longrightarrow> dge (fst (cell_distance G (cell cd) (xyz cd) (uvw cd) (surface p))) (Fin 0))
          \<and> (\<forall>k d t. k < nat (n_coord p) \<and> level_lattice K G p k = Inr (Some (d, t))
             \<longrightarrow> dge d (Fin 0))"
    have "dge (dist b) (Fin 0) \<and> dge (d_lat b) (Fin 0)"
    proof (rule for_loop_after [OF loop start])
      show "0 \<le> nat (n_coord p)" by simp
      show "dge (dist (boundary_init sc0 nl0 lt0 (p, ev))) (Fin 0)
          \<and> dge (d_lat (boundary_init sc0 nl0 lt0 (p, ev))) (Fin 0)"
        by (simp add: boundary_init_def dge_def)
    next
      fix i u u'
      assume i: "i < nat (n_coord p)"
        and inv: "dge (dist u) (Fin 0) \<and> dge (d_lat u) (Fin 0)"
        and step: "level_body K G p i u = Inr u'"
      show "dge (dist u') (Fin 0) \<and> dge (d_lat u') (Fin 0)"
      proof (rule level_body_nonneg [OF _ _ inv step])
        fix cd assume "vec_at (coord p) (int i) = Inr cd"
        with c i show "dge (fst (cell_distance G (cell cd) (xyz cd) (uvw cd) (surface p))) (Fin 0)"
          by blast
      next
        fix d t assume "level_lattice K G p i = Inr (Some (d, t))"
        with c i show "dge d (Fin 0)" by blast
      qed
    qed
    then show "dge (dist b) (Fin 0)" ..
  }
  {
    fix k d t
    assume "k < nat (n_coord p) \<and> level_lattice K G p k = Inr (Some (d, t)) \<and> dlt d (Fin 0)"
    then have k: "k < nat (n_coord p)" and l: "level_lattice K G p k = Inr (Some (d, t))"
      and neg: "dlt d (Fin 0)"
      by simp_all
    show "\<not> alive (fst (part b))"
    proof (rule for_loop_from [OF loop k])
      fix t t' assume "level_body K G p k t = Inr t'"
      then show "\<not> alive (fst (part t'))" by (rule level_body_marks_lost [OF l neg])
    next
      fix i t t' assume "\<not> alive (fst (part t))" and "level_body K G p i t = Inr t'"
      then show "\<not> alive (fst (part t'))" by (rule level_body_stays_lost)
    qed
  }
qed

text \<open>
  In \<open>G3\<close> a lattice that the located neutron is not in reports the distance \<open>-1\<close>; the
  distances that the call obtains are 5, 8 and 5.
\<close>

lemma located_boundary_G3:
  "distance_to_boundary K0 G3 0 0 (0, 0, 0) (located, []) =
     Inr \<lparr>dist = Fin 5, surface_crossed = 1, lattice_translation = (0, 0, 0), next_level = 1,
          d_lat = Fin 5, level_lat_trans = (1, 0, 0), part = (located, [])\<rparr>"
  by (simp add: distance_to_boundary_def level_body_def level_lattice_def choose_boundary_def
      crossed_surface_def update_lattice_def replaces_def deq_def dge_def
      dsub_def boundary_init_def vec_at_def lattice_ijk_def located_def neutron1_def frame0_def
      G3_def G1_def cell0_def cell1_def K0_def for_loop_numeral)

theorem distance_nonneg_or_lost_witness:
  "\<exists>b. distance_to_boundary K0 G3 0 0 (0, 0, 0) (located, []) = Inr b \<and> dge (dist b) (Fin 0)
     \<and> fst (lat_distance G3 1 (Fin 0, Fin 0, Fin 0) (Fin 1, Fin 0, Fin 0) (0, 0, 0)) = Fin (- 1)"
proof -
  obtain b where b: "distance_to_boundary K0 G3 0 0 (0, 0, 0) (located, []) = Inr b"
    using located_boundary_G3 by blast
  have cells: "\<forall>k cd. k < nat (n_coord located) \<and> vec_at (coord located) (int k) = Inr cd
      \<longrightarrow> dge (fst (cell_distance G3 (cell cd) (xyz cd) (uvw cd) (surface located))) (Fin 0)"
    by (simp add: G3_def G1_def dge_def)
  have "level_lattice K0 G3 located k = Inr (Some (d, t)) \<Longrightarrow> k < 2 \<Longrightarrow> dge d (Fin 0)" for k d t
    by (cases k)
       (auto simp: level_lattice_def vec_at_def located_def frame0_def G3_def G1_def K0_def
          dge_def lattice_ijk_def less_Suc_eq split: if_splits)
  then have lats: "\<forall>k d t. k < nat (n_coord located)
      \<and> level_lattice K0 G3 located k = Inr (Some (d, t)) \<longrightarrow> dge d (Fin 0)"
    by (auto simp: located_def)
  from distance_nonneg_or_lost [OF b] cells lats have "dge (dist b) (Fin 0)" by blast
  with b show ?thesis by (auto simp: G3_def)
qed

text \<open>
  The claim as stated fails in \<open>G2\<close>, whose lattice reports the distance \<open>-1\<close>: the
  particle is marked as lost and the lattice branch returns \<open>d = -1\<close>.
\<close>

theorem distance_nonneg_counterexample:
  "map_sum id (\<lambda>b. (dist b, surface_crossed b, lattice_translation b, next_level b,
                     alive (fst (part b)), snd (part b)))
     (distance_to_boundary K0 G2 0 0 (0, 0, 0) (located, []))
     = Inr (Fin (- 1), 0, (1, 0, 0), 2, False, [NegativeLatticeDistance 1])
   \<and> \<not> dge (Fin (- 1)) (Fin 0)"
  by (simp add: distance_to_boundary_def level_body_def level_lattice_def choose_boundary_def
      crossed_surface_def update_lattice_def mark_as_lost_def replaces_def deq_def dge_def
      dsub_def boundary_init_def vec_at_def lattice_ijk_def located_def neutron1_def frame0_def
      G2_def G1_def cell0_def cell1_def K0_def for_loop_numeral round64_eval)

section \<open>Locating a particle\<close>

text \<open>The two ways in which the body of \<^verbatim>\<open>find_cell_inner\<close> ends.\<close>

lemma find_cell_inner_Return:
  "find_cell_body K G st nl = Inr (Return found st') \<Longrightarrow>
     find_cell_inner K G st nl = Inr (found, st')"
  by (subst find_cell_inner.simps) simp

lemma find_cell_inner_Recurse:
  "find_cell_body K G st nl = Inr (Recurse st') \<Longrightarrow>
     find_cell_inner K G st nl = find_cell_inner K G st' None"
  by (subst find_cell_inner.simps) simp

text \<open>Binding the cell that was found writes frame \<open>n_coord - 1\<close> only.\<close>

lemma vec_at_Inr: "vec_at xs i = Inr x \<longleftrightarrow> 0 \<le> i \<and> i < int (length xs) \<and> x = xs ! nat i"
  by (auto simp: vec_at_def)

lemma bind_cell:
  assumes "vec_at (coord p) (n_coord p - 1) = Inr cd"
  shows "update_coord p (n_coord p - 1) (\<lambda>cd. cd\<lparr>cell := i_cell\<rparr>) =
           Inr (p\<lparr>coord := (coord p)[nat (n_coord p - 1) := cd\<lparr>cell := i_cell\<rparr>]\<rparr>)"
    and "vec_at (coord (p\<lparr>coord := (coord p)[nat (n_coord p - 1) := cd\<lparr>cell := i_cell\<rparr>]\<rparr>))
           (n_coord p - 1) = Inr (cd\<lparr>cell := i_cell\<rparr>)"
  using assms by (auto simp: update_coord_def vec_at_def split: if_splits)

subsection \<open>A lattice without outer universe\<close>

lemma enter_lattice_outside:
  assumes "vec_at (lattices G) (fill c) = Inr lat" and "outer lat = NO_OUTER_UNIVERSE K"
    and "vec_at (coord p) (n_coord p - 1) = Inr cd"
    and "\<not> are_valid_indices G (fill c) (get_indices G (fill c) (nudge K (xyz cd) (uvw cd)))"
    and "n_coord p < int (length (coord p))"
  shows "\<exists>p'. enter_lattice K G (p, ev) c = Inr (False, p', ev @ [OutsideLattice (p_id p) (lat_id lat)])
           \<and> n_coord p' = n_coord p"
proof -
  from assms(3) have "0 \<le> n_coord p" by (simp add: vec_at_Inr)
  with assms(5) have "vec_at (coord p) (n_coord p) = Inr (coord p ! nat (n_coord p))"
    by (simp add: vec_at_def)
  then show ?thesis
    using assms(1-4) by (simp add: enter_lattice_def Let_def update_coord_def)
qed

text \<open>
  Claim C8.  Let an invocation of \<^verbatim>\<open>find_cell_inner\<close> bind a cell filled with a lattice
  whose outer universe is \<^verbatim>\<open>NO_OUTER_UNIVERSE\<close>, at a position whose tile indices are not
  valid (the array of frames has room for the next frame).  Then the warning is issued
  and the invocation returns \<open>false\<close>: it does not abort, and \<^verbatim>\<open>n_coord\<close> is what it was on
  entry.  \<^verbatim>\<open>find_cell\<close> returns the same failure when this invocation is its last
  one: the full search without neighbour lists, or with neighbour lists the full search
  that follows a failed search of the neighbour list.
\<close>

theorem outside_lattice_no_outer:
  assumes "candidates G p nl = Inr cands"
    and "search_cells G p cands = Inr (Some i_cell)"
    and "vec_at (cells G) i_cell = Inr c" and "c_type c = FILL_LATTICE"
    and "vec_at (lattices G) (fill c) = Inr lat" and "outer lat = NO_OUTER_UNIVERSE K"
    and "vec_at (coord p) (n_coord p - 1) = Inr cd"
    and "\<not> are_valid_indices G (fill c) (get_indices G (fill c) (nudge K (xyz cd) (uvw cd)))"
    and "n_coord p < int (length (coord p))"
    and "ev' = (if verbose G then ev @ [EnteringCell (c_id c)] else ev)
                 @ [OutsideLattice (p_id p) (lat_id lat)]"
  shows "\<exists>p'. find_cell_inner K G (p, ev) nl = Inr (False, p', ev') \<and> n_coord p' = n_coord p
     \<and> (nl = None \<and> prepare K G p0 = Inr p \<longrightarrow>
          find_cell K G (p0, ev) False = Inr (False, (p', ev'), G))
     \<and> (nl = None \<and> prepare K G p0 = Inr q \<and> vec_at (coord q) (n_coord q - 1) = Inr cq
          \<and> vec_at (cells G) (cell cq) = Inr c_prev
          \<and> find_cell_inner K G (q, ev0) (Some (neighbors c_prev)) = Inr (False, p, ev) \<longrightarrow>
          find_cell K G (p0, ev0) True = Inr (False, (p', ev'), G))"
proof -
  let ?p1 = "p\<lparr>coord := (coord p)[nat (n_coord p - 1) := cd\<lparr>cell := i_cell\<rparr>]\<rparr>"
  let ?ev1 = "if verbose G then ev @ [EnteringCell (c_id c)] else ev"
  have "\<exists>p'. enter_lattice K G (?p1, ?ev1) c =
            Inr (False, p', ?ev1 @ [OutsideLattice (p_id ?p1) (lat_id lat)])
          \<and> n_coord p' = n_coord ?p1"
  proof (rule enter_lattice_outside [OF assms(5,6)])
    show "vec_at (coord ?p1) (n_coord ?p1 - 1) = Inr (cd\<lparr>cell := i_cell\<rparr>)"
      using bind_cell(2) [OF assms(7)] by simp
    show "\<not> are_valid_indices G (fill c)
            (get_indices G (fill c) (nudge K (xyz (cd\<lparr>cell := i_cell\<rparr>)) (uvw (cd\<lparr>cell := i_cell\<rparr>))))"
      using assms(8) by simp
    show "n_coord ?p1 < int (length (coord ?p1))" using assms(9) by simp
  qed
  then obtain p' where lat: "enter_lattice K G (?p1, ?ev1) c = Inr (False, p', ev')"
    and n: "n_coord p' = n_coord p"
    using assms(10) by auto
  have "find_cell_body K G (p, ev) nl = Inr (Return False (p', ev'))"
    using assms(1-4) bind_cell(1) [OF assms(7)] lat
    by (simp add: find_cell_body_def Let_def)
  then have inner: "find_cell_inner K G (p, ev) nl = Inr (False, p', ev')"
    by (rule find_cell_inner_Return)
  then have plain: "nl = None \<and> prepare K G p0 = Inr p \<longrightarrow>
      find_cell K G (p0, ev) False = Inr (False, (p', ev'), G)"
    by (auto simp: find_cell_def)
  from inner have neigh: "nl = None \<and> prepare K G p0 = Inr q \<and> vec_at (coord q) (n_coord q - 1) = Inr cq
          \<and> vec_at (cells G) (cell cq) = Inr c_prev
          \<and> find_cell_inner K G (q, ev0) (Some (neighbors c_prev)) = Inr (False, p, ev) \<longrightarrow>
          find_cell K G (p0, ev0) True = Inr (False, (p', ev'), G)"
    by (auto simp: find_cell_def)
  from inner n plain neigh show ?thesis by blast
qed

theorem outside_lattice_no_outer_witness:
  "\<exists>p'. find_cell_inner K0 G1 (outside, []) None = Inr (False, p', [OutsideLattice 1 7])
     \<and> find_cell K0 G1 (outside, []) False = Inr (False, (p', [OutsideLattice 1 7]), G1)
     \<and> find_cell K0 G1 (outside, []) True = Inr (False, (p', [OutsideLattice 1 7]), G1)
     \<and> n_coord p' = 1"
proof -
  let ?cd = "frame0\<lparr>cell := 0, xyz := (Fin (- 1), Fin 0, Fin 0)\<rparr>"
  have a1: "candidates G1 outside None = Inr [0]"
    by (simp add: candidates_def vec_at_def outside_def neutron1_def frame0_def G1_def)
  have a7: "vec_at (coord outside) (n_coord outside - 1) = Inr ?cd"
    by (simp add: vec_at_def outside_def neutron1_def)
  have a3: "vec_at (cells G1) 0 = Inr cell0" by (simp add: vec_at_def G1_def)
  have a2: "search_cells G1 outside [0] = Inr (Some 0)"
    using a7 a3 by (simp add: cell0_def frame0_def G1_def)
  have a4: "c_type cell0 = FILL_LATTICE" by (simp add: cell0_def)
  have a5: "vec_at (lattices G1) (fill cell0) = Inr \<lparr>lat_id = 7, lat_type = rect, outer = - 1\<rparr>"
    by (simp add: vec_at_def G1_def cell0_def)
  have a6: "outer \<lparr>lat_id = 7, lat_type = rect, outer = - 1\<rparr> = NO_OUTER_UNIVERSE K0"
    by (simp add: K0_def)
  have a8: "\<not> are_valid_indices G1 (fill cell0)
              (get_indices G1 (fill cell0) (nudge K0 (xyz ?cd) (uvw ?cd)))"
    by (simp add: G1_def nudge_def frame0_def K0_def round64_eval)
  have a9: "n_coord outside < int (length (coord outside))"
    by (simp add: outside_def neutron1_def)
  have a10: "[OutsideLattice 1 7] = (if verbose G1 then [] @ [EnteringCell (c_id cell0)] else [])
      @ [OutsideLattice (p_id outside) (lat_id \<lparr>lat_id = 7, lat_type = rect, outer = - 1\<rparr>)]"
    by (simp add: G1_def outside_def neutron1_def)
  have prep: "prepare K0 G1 outside = Inr outside"
    by (simp add: prepare_def vec_at_def reset_def outside_def neutron1_def frame0_def
        C_NONE_def K0_def)
  have prev: "vec_at (cells G1) (cell ?cd) = Inr cell0" by (simp add: vec_at_def G1_def)
  have "find_cell_body K0 G1 (outside, []) (Some (neighbors cell0)) = Inr (Return False (outside, []))"
    by (simp add: find_cell_body_def candidates_def cell0_def)
  then have first: "find_cell_inner K0 G1 (outside, []) (Some (neighbors cell0)) = Inr (False, outside, [])"
    by (rule find_cell_inner_Return)
  have n: "n_coord outside = 1" by (simp add: outside_def neutron1_def)
  from outside_lattice_no_outer [OF a1 a2 a3 a4 a5 a6 a7 a8 a9 a10, of outside outside ?cd cell0 "[]"]
    prep n a7 prev first
  show ?thesis by auto
qed

subsection \<open>A material cell\<close>

text \<open>The loop over the frames computes the sum of the spec.\<close>

lemma offset_body_spec:
  assumes "offset_body G p c i off = Inr r"
  shows "r = off + spec_frame_offset G p c i"
proof -
  have "nat (int i + 1) = i + 1" by simp
  with assms show ?thesis
    by (cases "c_type (cells G ! nat (cell (coord p ! i)))")
       (auto simp: offset_body_def spec_frame_offset_def Let_def vec_at_Inr
             split: sum.splits if_splits)
qed

lemma offset_loop_spec:
  "for_loop n (offset_body G p c) off = Inr r \<Longrightarrow> r = off + (\<Sum>i < n. spec_frame_offset G p c i)"
proof (induction n arbitrary: r)
  case 0
  then show ?case by simp
next
  case (Suc n)
  then obtain t where t: "for_loop n (offset_body G p c) off = Inr t"
    and r: "offset_body G p c n t = Inr r"
    by (auto split: sum.splits)
  from Suc.IH [OF t] offset_body_spec [OF r] show ?case by simp
qed

text \<open>
  Claim C2, as amended.  Let an invocation of \<^verbatim>\<open>find_cell_inner\<close> bind a cell \<open>c\<close> with
  material fill, and let the reads of the branch be in range.  Then the invocation
  returns \<open>true\<close> without descending.  \<^verbatim>\<open>cell_instance\<close> is 0 when the cell has at most
  one material and at most one sqrtkT, and otherwise the sum over the frames of the
  offsets of universe-filled cells and of the lattice offsets at valid indices.  The
  material of the particle comes from \<^verbatim>\<open>material_[cell_instance]\<close> when the cell has more
  than one material and from \<^verbatim>\<open>material_[0]\<close> otherwise; it is stored as that value plus
  one, or as the void sentinel when the value is the void sentinel.  Likewise
  \<^verbatim>\<open>sqrtkT\<close> is \<^verbatim>\<open>sqrtkT_[cell_instance]\<close> when the cell has more than one sqrtkT and
  \<^verbatim>\<open>sqrtkT_[0]\<close> otherwise.  The previous material and sqrtkT are kept in
  \<^verbatim>\<open>last_material\<close> and \<^verbatim>\<open>last_sqrtkT\<close>.
\<close>

theorem material_cell_is_terminal:
  assumes "candidates G p nl = Inr cands"
    and "search_cells G p cands = Inr (Some i_cell)"
    and "vec_at (cells G) i_cell = Inr c" and "c_type c = FILL_MATERIAL"
    and "vec_at (coord p) (n_coord p - 1) = Inr cd"
    and "p1 = p\<lparr>coord := (coord p)[nat (n_coord p - 1) := cd\<lparr>cell := i_cell\<rparr>]\<rparr>"
    and "find_instance G p1 c = Inr inst"
    and "vec_at (c_material c) (if 1 < length (c_material c) then inst else 0) = Inr mat"
    and "vec_at (c_sqrtkT c) (if 1 < length (c_sqrtkT c) then inst else 0) = Inr t"
  shows "find_cell_inner K G (p, ev) nl =
           Inr (True,
                p1\<lparr>cell_instance := inst, last_material := material p,
                   material := (if mat = MATERIAL_VOID K then MATERIAL_VOID K else mat + 1),
                   last_sqrtkT := sqrtkT p, sqrtkT := t\<rparr>,
                if verbose G then ev @ [EnteringCell (c_id c)] else ev)
     \<and> inst = (if 1 < length (c_material c) \<or> 1 < length (c_sqrtkT c)
               then spec_cell_instance G p1 c else 0)"
proof -
  have inst: "inst = (if 1 < length (c_material c) \<or> 1 < length (c_sqrtkT c)
                      then spec_cell_instance G p1 c else 0)"
    using assms(7) offset_loop_spec [of "nat (n_coord p1)" G p1 c 0 inst]
    by (auto simp: find_instance_def spec_cell_instance_def split: if_splits)
  have mat: "enter_material K G p1 c =
      Inr (p1\<lparr>cell_instance := inst, last_material := material p1,
             material := (if mat = MATERIAL_VOID K then MATERIAL_VOID K else mat + 1),
             last_sqrtkT := sqrtkT p1, sqrtkT := t\<rparr>)"
    using assms(7,8,9) by (simp add: enter_material_def)
  have "find_cell_body K G (p, ev) nl =
      Inr (Return True
             (p1\<lparr>cell_instance := inst, last_material := material p,
                 material := (if mat = MATERIAL_VOID K then MATERIAL_VOID K else mat + 1),
                 last_sqrtkT := sqrtkT p, sqrtkT := t\<rparr>,
              if verbose G then ev @ [EnteringCell (c_id c)] else ev))"
    using assms(1-4) bind_cell(1) [OF assms(5), of i_cell] mat
    by (simp add: find_cell_body_def Let_def assms(6))
  from find_cell_inner_Return [OF this] inst show ?thesis by simp
qed

theorem material_cell_is_terminal_witness:
  "find_cell_inner K0 G1 (located, []) None =
     Inr (True, located\<lparr>cell_instance := 1, last_material := - 1, material := 6,
                        last_sqrtkT := Fin (1 / 8), sqrtkT := Fin (1 / 4)\<rparr>, [])
   \<and> spec_cell_instance G1 located cell1 = 1"
proof -
  let ?cd = "frame0\<lparr>universe := 1, cell := 1, lattice := 1\<rparr>"
  have a1: "candidates G1 located None = Inr [1]"
    by (simp add: candidates_def vec_at_def located_def neutron1_def frame0_def G1_def)
  have a5: "vec_at (coord located) (n_coord located - 1) = Inr ?cd"
    by (simp add: vec_at_def located_def neutron1_def)
  have a3: "vec_at (cells G1) 1 = Inr cell1" by (simp add: vec_at_def G1_def)
  have a2: "search_cells G1 located [1] = Inr (Some 1)"
    using a5 a3 by (simp add: cell1_def frame0_def G1_def)
  have a4: "c_type cell1 = FILL_MATERIAL" by (simp add: cell1_def)
  have a6: "located = located\<lparr>coord := (coord located)[nat (n_coord located - 1) := ?cd\<lparr>cell := 1\<rparr>]\<rparr>"
    by (simp add: located_def neutron1_def)
  have a7: "find_instance G1 located cell1 = Inr 1"
    by (simp add: find_instance_def offset_body_def vec_at_def lattice_ijk_def located_def
        neutron1_def frame0_def G1_def cell0_def cell1_def numeral_2_eq_2)
  have a8: "vec_at (c_material cell1) (if 1 < length (c_material cell1) then 1 else 0) = Inr 5"
    by (simp add: vec_at_def cell1_def)
  have a9: "vec_at (c_sqrtkT cell1) (if 1 < length (c_sqrtkT cell1) then 1 else 0) = Inr (Fin (1 / 4))"
    by (simp add: vec_at_def cell1_def)
  from material_cell_is_terminal [OF a1 a2 a3 a4 a5 a6 a7 a8 a9, of K0 "[]"]
  show ?thesis
    by (simp add: K0_def G1_def located_def neutron1_def cell1_def)
qed

text \<open>
  The claim as stated fails for a cell with one material and two temperatures in a
  lattice tile with offset 1: \<^verbatim>\<open>cell_instance\<close> is 1, the cell has no material at index
  1, and the particle gets the material at index 0.
\<close>

theorem material_cell_is_terminal_counterexample:
  "map_sum id (\<lambda>(found, p', ev). (found, n_coord p', cell_instance p', material p', sqrtkT p'))
     (find_cell_inner K0 G1 (neutron1, []) None) = Inr (True, 2, 1, 6, Fin (1 / 4))
   \<and> c_material cell1 = [5]
   \<and> vec_at (c_material cell1) 1 = Inl OutOfBounds"
proof -
  let ?p1 = "neutron1\<lparr>n_coord := 2,
      coord := [frame0\<lparr>cell := 0\<rparr>, frame0\<lparr>universe := 1, lattice := 1\<rparr>, frame0]\<rparr>"
  have 1: "find_cell_body K0 G1 (neutron1, []) None = Inr (Recurse (?p1, []))"
    by (simp add: find_cell_body_def candidates_def update_coord_def enter_lattice_def
        nudge_def vec_at_def neutron1_def frame0_def G1_def cell0_def K0_def round64_eval)
  have 2: "find_cell_body K0 G1 (?p1, []) None =
      Inr (Return True (located\<lparr>cell_instance := 1, last_material := - 1, material := 6,
                                last_sqrtkT := Fin (1 / 8), sqrtkT := Fin (1 / 4)\<rparr>, []))"
    by (simp add: find_cell_body_def candidates_def update_coord_def enter_material_def
        find_instance_def offset_body_def lattice_ijk_def vec_at_def located_def neutron1_def
        frame0_def G1_def cell0_def cell1_def K0_def numeral_2_eq_2 Let_def)
  have "find_cell_inner K0 G1 (neutron1, []) None =
      Inr (True, located\<lparr>cell_instance := 1, last_material := - 1, material := 6,
                         last_sqrtkT := Fin (1 / 8), sqrtkT := Fin (1 / 4)\<rparr>, [])"
    using find_cell_inner_Recurse [OF 1] find_cell_inner_Return [OF 2] by simp
  then show ?thesis
    by (simp add: located_def cell1_def vec_at_def)
qed

end
